theory Spec2Isabelle
  imports Complex_Main "HOL-Library.Log_Nat"
begin

section \<open>Python values used by the wallet\<close>

subsection \<open>Floats\<close>

text \<open>
  Balances, amounts, rates and limits of \<^verbatim>\<open>wallet.py\<close> are Python floats, that is
  IEEE 754 binary64 numbers. A finite float is represented by the rational number it
  denotes; the two zeros are identified, since the wallet only adds, subtracts,
  multiplies and compares, and none of these tells \<^verbatim>\<open>-0.0\<close> from \<^verbatim>\<open>0.0\<close>.
  Arguments are allowed to be any rational: every binary64 number is one of them.
  Results of arithmetic are rounded to binary64 by \<open>rnd\<close> (round to nearest, ties to
  even, 53 bits of precision, gradual underflow, overflow to infinity).
\<close>

datatype pyfloat = Fin rat | PInf | NInf | NaN

definition pow2 :: "int \<Rightarrow> rat" where
  "pow2 e = (if 0 \<le> e then 2 ^ nat e else 1 / 2 ^ nat (- e))"

definition round_half_even :: "rat \<Rightarrow> int" where
  "round_half_even x =
     (let f = \<lfloor>x\<rfloor>; d = x - of_int f
      in if d < 1 / 2 then f
         else if 1 / 2 < d then f + 1
         else if even f then f else f + 1)"

text \<open>\<open>ilog2 x\<close> is the binary exponent of a positive rational: \<open>2^e \<le> x < 2^(e+1)\<close>.\<close>

definition ilog2 :: "rat \<Rightarrow> int" where
  "ilog2 x =
     (let (p, q) = quotient_of x; d = bitlen p - bitlen q
      in if pow2 d \<le> x then d else d - 1)"

definition rnd :: "rat \<Rightarrow> pyfloat" where
  "rnd x =
     (if x = 0 then Fin 0
      else let q = max (ilog2 \<bar>x\<bar> - 52) (- 1074);
               y = of_int (round_half_even (x / pow2 q)) * pow2 q
           in if 2 ^ 1024 \<le> \<bar>y\<bar> then (if 0 < x then PInf else NInf) else Fin y)"

fun fneg :: "pyfloat \<Rightarrow> pyfloat" where
  "fneg (Fin x) = Fin (- x)"
| "fneg PInf = NInf"
| "fneg NInf = PInf"
| "fneg NaN = NaN"

fun fabs :: "pyfloat \<Rightarrow> pyfloat" where
  "fabs (Fin x) = Fin \<bar>x\<bar>"
| "fabs PInf = PInf"
| "fabs NInf = PInf"
| "fabs NaN = NaN"

fun fadd :: "pyfloat \<Rightarrow> pyfloat \<Rightarrow> pyfloat" where
  "fadd NaN _ = NaN"
| "fadd _ NaN = NaN"
| "fadd PInf NInf = NaN"
| "fadd NInf PInf = NaN"
| "fadd PInf _ = PInf"
| "fadd _ PInf = PInf"
| "fadd NInf _ = NInf"
| "fadd _ NInf = NInf"
| "fadd (Fin x) (Fin y) = rnd (x + y)"

definition fsub :: "pyfloat \<Rightarrow> pyfloat \<Rightarrow> pyfloat" where
  "fsub a b = fadd a (fneg b)"

fun fmul :: "pyfloat \<Rightarrow> pyfloat \<Rightarrow> pyfloat" where
  "fmul NaN _ = NaN"
| "fmul _ NaN = NaN"
| "fmul (Fin x) (Fin y) = rnd (x * y)"
| "fmul (Fin x) PInf = (if x = 0 then NaN else if 0 < x then PInf else NInf)"
| "fmul (Fin x) NInf = (if x = 0 then NaN else if 0 < x then NInf else PInf)"
| "fmul PInf (Fin y) = (if y = 0 then NaN else if 0 < y then PInf else NInf)"
| "fmul NInf (Fin y) = (if y = 0 then NaN else if 0 < y then NInf else PInf)"
| "fmul PInf PInf = PInf"
| "fmul PInf NInf = NInf"
| "fmul NInf PInf = NInf"
| "fmul NInf NInf = PInf"

text \<open>Comparisons: every comparison with \<^verbatim>\<open>nan\<close> is false, except \<^verbatim>\<open>!=\<close>.\<close>

fun flt :: "pyfloat \<Rightarrow> pyfloat \<Rightarrow> bool" where
  "flt NaN _ = False"
| "flt _ NaN = False"
| "flt (Fin x) (Fin y) = (x < y)"
| "flt (Fin x) PInf = True"
| "flt (Fin x) NInf = False"
| "flt PInf _ = False"
| "flt NInf (Fin y) = True"
| "flt NInf PInf = True"
| "flt NInf NInf = False"

fun feq :: "pyfloat \<Rightarrow> pyfloat \<Rightarrow> bool" where
  "feq (Fin x) (Fin y) = (x = y)"
| "feq PInf PInf = True"
| "feq NInf NInf = True"
| "feq _ _ = False"

definition fle :: "pyfloat \<Rightarrow> pyfloat \<Rightarrow> bool" where
  "fle a b = (flt a b \<or> feq a b)"

definition fgt :: "pyfloat \<Rightarrow> pyfloat \<Rightarrow> bool" where
  "fgt a b = flt b a"

definition fge :: "pyfloat \<Rightarrow> pyfloat \<Rightarrow> bool" where
  "fge a b = fle b a"

text \<open>
  The float literals of the source, as the binary64 numbers Python reads them as:
  \<^verbatim>\<open>0.2\<close>, \<^verbatim>\<open>1e-9\<close> and \<^verbatim>\<open>1e-6\<close>.
\<close>

definition lit_0_2 :: pyfloat where
  "lit_0_2 = Fin (3602879701896397 / 18014398509481984)"

definition lit_1e_9 :: pyfloat where
  "lit_1e_9 = Fin (4835703278458517 / 4835703278458516698824704)"

definition lit_1e_6 :: pyfloat where
  "lit_1e_6 = Fin (4722366482869645 / 4722366482869645213696)"

text \<open>
  \<^verbatim>\<open>sum(values)\<close>: the accumulator starts at 0 and adds the items from left to right,
  each addition rounded. This is the accumulation of CPython up to version 3.11; later
  versions carry a correction term for the rounding of the partial sums.
\<close>

definition pysum :: "pyfloat list \<Rightarrow> pyfloat" where
  "pysum xs = foldl fadd (Fin 0) xs"

subsection \<open>Dynamically typed values and dictionaries\<close>

datatype pyval = VNone | VStr string | VFloat pyfloat | VInt int

text \<open>Python's \<^verbatim>\<open>==\<close> on these values.\<close>

fun py_eq :: "pyval \<Rightarrow> pyval \<Rightarrow> bool" where
  "py_eq VNone VNone = True"
| "py_eq (VStr a) (VStr b) = (a = b)"
| "py_eq (VFloat a) (VFloat b) = feq a b"
| "py_eq (VInt a) (VInt b) = (a = b)"
| "py_eq (VInt a) (VFloat b) = feq (Fin (of_int a)) b"
| "py_eq (VFloat a) (VInt b) = feq a (Fin (of_int b))"
| "py_eq _ _ = False"

text \<open>
  A dictionary keeps its keys in insertion order: an association list with distinct
  keys. \<open>dict_set\<close> is \<^verbatim>\<open>d[k] = v\<close>: an existing key keeps its place, a new one goes
  to the end. \<open>dict_at\<close> is \<^verbatim>\<open>d[k]\<close>, which the source only evaluates after it has
  checked that the key is there; \<open>dict_get\<close> is \<^verbatim>\<open>d.get(k)\<close>.
\<close>

type_synonym ('k, 'v) pydict = "('k \<times> 'v) list"

definition keys :: "('k, 'v) pydict \<Rightarrow> 'k list" where
  "keys d = map fst d"

definition dict_values :: "('k, 'v) pydict \<Rightarrow> 'v list" where
  "dict_values d = map snd d"

definition dict_has :: "('k, 'v) pydict \<Rightarrow> 'k \<Rightarrow> bool" where
  "dict_has d k = (map_of d k \<noteq> None)"

definition dict_at :: "('k, 'v) pydict \<Rightarrow> 'k \<Rightarrow> 'v" where
  "dict_at d k = the (map_of d k)"

fun dict_set :: "('k, 'v) pydict \<Rightarrow> 'k \<Rightarrow> 'v \<Rightarrow> ('k, 'v) pydict" where
  "dict_set [] k v = [(k, v)]"
| "dict_set ((k', v') # d) k v = (if k' = k then (k, v) # d else (k', v') # dict_set d k v)"

type_synonym record_dict = "(string, pyval) pydict"

definition dict_get :: "record_dict \<Rightarrow> string \<Rightarrow> pyval" where
  "dict_get t k = (case map_of t k of None \<Rightarrow> VNone | Some v \<Rightarrow> v)"


text \<open>
  The number held by a field, for \<^verbatim>\<open>t["amount"] - amount\<close>. The source applies it only
  to the record it has just appended, whose amount is a float.
\<close>

fun num_of :: "pyval \<Rightarrow> pyfloat" where
  "num_of (VFloat a) = a"
| "num_of (VInt i) = Fin (of_int i)"
| "num_of _ = NaN"

text \<open>\<^verbatim>\<open>xs[-n:]\<close> for \<open>n \<ge> 0\<close>; note that \<^verbatim>\<open>xs[-0:]\<close> is the whole list.\<close>

definition last_n :: "nat \<Rightarrow> 'a list \<Rightarrow> 'a list" where
  "last_n n xs = (if n = 0 then xs else drop (length xs - n) xs)"

text \<open>\<^verbatim>\<open>pin.isdigit()\<close> on ASCII text: non-empty, and every character a decimal digit.\<close>

definition isdigit :: "string \<Rightarrow> bool" where
  "isdigit p = (p \<noteq> [] \<and> list_all (\<lambda>c. c \<in> set ''0123456789'') p)"

definition startswith :: "string \<Rightarrow> string \<Rightarrow> bool" where
  "startswith x p = (take (length p) x = p)"

section \<open>The wallet\<close>

record wallet =
  balances :: "(string, pyfloat) pydict"
  transactions :: "record_dict list"
  user_pins :: "(string, string) pydict"
  payment_methods :: "(string, record_dict list) pydict"
  spending_limits :: "(string, record_dict) pydict"

definition init_wallet :: wallet where
  "init_wallet = \<lparr>balances = [], transactions = [], user_pins = [],
     payment_methods = [], spending_limits = []\<rparr>"

text \<open>
  A call either returns a value or raises \<^verbatim>\<open>AssertionError\<close> with a message. Every
  operation is modelled as a function from the state before the call to the outcome and
  the state after it, so that a raise after a mutation keeps the mutation, as in Python.
\<close>

datatype 'a outcome = Returned 'a | Raised string

text \<open>A sequence of \<^verbatim>\<open>assert cond, msg\<close> statements: the first false one raises.\<close>

fun asserts :: "(bool \<times> string) list \<Rightarrow> string option" where
  "asserts [] = None"
| "asserts ((c, m) # rest) = (if c then asserts rest else Some m)"

text \<open>
  The shape shared by the mutating methods: the precondition asserts run on the state
  before, then the mutation, then the postcondition asserts on the state after.
\<close>

definition guarded :: "string option \<Rightarrow> wallet \<Rightarrow> wallet \<Rightarrow> string option \<Rightarrow> unit outcome \<times> wallet" where
  "guarded pre s s' post =
     (case pre of
        Some m \<Rightarrow> (Raised m, s)
      | None \<Rightarrow> (case post of Some m \<Rightarrow> (Raised m, s') | None \<Rightarrow> (Returned (), s')))"

definition bal :: "wallet \<Rightarrow> string \<Rightarrow> pyfloat" where
  "bal s u = dict_at (balances s) u"

subsection \<open>System invariants\<close>

definition verify_invariants :: "wallet \<Rightarrow> bool" where
  "verify_invariants s =
     (asserts
        [(length (balances s) = length (remdups (keys (balances s))),
            ''I1 violated: Duplicate user IDs''),
         (list_all (\<lambda>b. fge b (Fin 0)) (dict_values (balances s)),
            ''I2 violated: Negative balance found''),
         (list_all (\<lambda>uid. dict_has (balances s) uid) (keys (user_pins s)),
            ''I4 violated: PIN for non-existent user''),
         (list_all (\<lambda>uid. dict_has (balances s) uid) (keys (payment_methods s)),
            ''I5 violated: Payment method for non-existent user''),
         (list_all (\<lambda>uid. dict_has (balances s) uid) (keys (spending_limits s)),
            ''I6 violated: Spending limit for non-existent user'')]
      = None)"

text \<open>
  \<^verbatim>\<open>all(self.balances[u] == old_balances[u] for u in old_balances if u not in skip)\<close>,
  the frame check that closes most methods.
\<close>

definition balances_kept :: "string list \<Rightarrow> (string, pyfloat) pydict \<Rightarrow> wallet \<Rightarrow> bool" where
  "balances_kept skip old_balances s' =
     list_all (\<lambda>(u, b). u \<in> set skip \<or> feq (bal s' u) b) old_balances"

subsection \<open>Account creation\<close>

definition create_account_pre :: "wallet \<Rightarrow> string \<Rightarrow> string \<Rightarrow> string \<Rightarrow> string option" where
  "create_account_pre s user_id email password =
     asserts
       [(user_id \<noteq> [], ''R1 violated: Invalid user_id''),
        (\<not> dict_has (balances s) user_id, ''R2 violated: User already exists''),
        (email \<noteq> [] \<and> CHR ''@'' \<in> set email, ''R3 violated: Invalid email''),
        (password \<noteq> [] \<and> 6 \<le> length password, ''R4 violated: Password too weak'')]"

definition create_account_apply :: "wallet \<Rightarrow> string \<Rightarrow> wallet" where
  "create_account_apply s user_id = s\<lparr>balances := dict_set (balances s) user_id (Fin 0)\<rparr>"

definition create_account_post :: "wallet \<Rightarrow> wallet \<Rightarrow> string \<Rightarrow> string option" where
  "create_account_post s s' user_id =
     (let old_count = length (balances s); old_balances = balances s
      in asserts
           [(dict_has (balances s') user_id, ''E1 violated''),
            (feq (bal s' user_id) (Fin 0), ''E2 violated''),
            (length (balances s') = old_count + 1, ''E3 violated''),
            (balances_kept [] old_balances s', ''E4 violated''),
            (verify_invariants s', ''E5 violated: Invariants broken'')])"

definition create_account :: "wallet \<Rightarrow> string \<Rightarrow> string \<Rightarrow> string \<Rightarrow> unit outcome \<times> wallet" where
  "create_account s user_id email password =
     (let s' = create_account_apply s user_id
      in guarded (create_account_pre s user_id email password) s s'
           (create_account_post s s' user_id))"

subsection \<open>PIN management\<close>

definition set_pin_pre :: "wallet \<Rightarrow> string \<Rightarrow> string \<Rightarrow> string option" where
  "set_pin_pre s user_id pin =
     asserts
       [(dict_has (balances s) user_id, ''R1 violated: User must exist''),
        (pin \<noteq> [], ''R2 violated: Invalid PIN''),
        (4 \<le> length pin \<and> length pin \<le> 8, ''R3 violated: PIN length must be 4-8''),
        (isdigit pin, ''R4 violated: PIN must contain only digits'')]"

definition set_pin_apply :: "wallet \<Rightarrow> string \<Rightarrow> string \<Rightarrow> wallet" where
  "set_pin_apply s user_id pin = s\<lparr>user_pins := dict_set (user_pins s) user_id pin\<rparr>"

definition set_pin_post :: "wallet \<Rightarrow> wallet \<Rightarrow> string \<Rightarrow> string \<Rightarrow> string option" where
  "set_pin_post s s' user_id pin =
     (let old_balances = balances s
      in asserts
           [(dict_at (user_pins s') user_id = pin, ''E1 violated''),
            (balances_kept [] old_balances s', ''E2 violated''),
            (verify_invariants s', ''E3 violated'')])"

definition set_pin :: "wallet \<Rightarrow> string \<Rightarrow> string \<Rightarrow> unit outcome \<times> wallet" where
  "set_pin s user_id pin =
     (let s' = set_pin_apply s user_id pin
      in guarded (set_pin_pre s user_id pin) s s' (set_pin_post s s' user_id pin))"

text \<open>
  \<open>authenticate_pin\<close>: requirement R2 (the PIN is a string) holds by typing. The
  comparison \<^verbatim>\<open>expected == pin\<close> is between \<^verbatim>\<open>user_pins.get(user_id)\<close>, which is
  \<^verbatim>\<open>None\<close> when no PIN was set, and a string.
\<close>

definition authenticate_pin :: "wallet \<Rightarrow> string \<Rightarrow> string \<Rightarrow> bool outcome \<times> wallet" where
  "authenticate_pin s user_id pin =
     (case asserts [(dict_has (balances s) user_id, ''R1 violated: User must exist'')] of
        Some m \<Rightarrow> (Raised m, s)
      | None \<Rightarrow>
          (let old_pins = user_pins s;
               expected = map_of (user_pins s) user_id;
               result = (expected = Some pin)
           in case asserts [(user_pins s = old_pins, ''E3 violated: State modified'')] of
                Some m \<Rightarrow> (Raised m, s)
              | None \<Rightarrow> (Returned result, s)))"

subsection \<open>Funds management\<close>

text \<open>
  The transaction id (\<^verbatim>\<open>str(uuid.uuid4())\<close>) and the timestamp (\<^verbatim>\<open>time.time()\<close>, a finite
  float) come from outside the wallet: they are extra arguments \<open>tx_id\<close> and \<open>now\<close> of
  the methods that append a record.
\<close>

definition add_funds_pre :: "wallet \<Rightarrow> string \<Rightarrow> pyfloat \<Rightarrow> string option" where
  "add_funds_pre s user_id amount =
     asserts
       [(dict_has (balances s) user_id, ''R1 violated: User must exist''),
        (fgt amount (Fin 0), ''R2 violated: Amount must be positive''),
        (fle amount (Fin 1000000), ''R3 violated: Amount exceeds safety limit''),
        (flt (fadd (bal s user_id) amount) PInf, ''R4 violated: Overflow risk'')]"

definition add_funds_apply :: "wallet \<Rightarrow> string \<Rightarrow> pyfloat \<Rightarrow> string \<Rightarrow> rat \<Rightarrow> wallet" where
  "add_funds_apply s user_id amount tx_id now =
     s\<lparr>balances := dict_set (balances s) user_id (fadd (bal s user_id) amount),
       transactions := transactions s @
         [[(''id'', VStr tx_id), (''type'', VStr ''deposit''), (''user_id'', VStr user_id),
           (''amount'', VFloat amount), (''timestamp'', VFloat (Fin now)),
           (''status'', VStr ''completed'')]]\<rparr>"

definition add_funds_post :: "wallet \<Rightarrow> wallet \<Rightarrow> string \<Rightarrow> pyfloat \<Rightarrow> string option" where
  "add_funds_post s s' user_id amount =
     (let before = bal s user_id;
          old_balances = balances s;
          old_total = pysum (dict_values (balances s));
          old_tx_count = length (transactions s)
      in asserts
           [(flt (fabs (fsub (bal s' user_id) (fadd before amount))) lit_1e_9, ''E1 violated''),
            (balances_kept [user_id] old_balances s', ''E2 violated''),
            (flt (fabs (fsub (pysum (dict_values (balances s'))) (fadd old_total amount))) lit_1e_9,
               ''E3 violated''),
            (list_ex (\<lambda>t. py_eq (dict_get t ''type'') (VStr ''deposit'')
                         \<and> py_eq (dict_get t ''user_id'') (VStr user_id)
                         \<and> flt (fabs (fsub (num_of (dict_get t ''amount'')) amount)) lit_1e_9)
               (last_n 1 (transactions s')), ''E4 violated''),
            (length (transactions s') = old_tx_count + 1, ''E5 violated''),
            (verify_invariants s', ''E6 violated'')])"

definition add_funds :: "wallet \<Rightarrow> string \<Rightarrow> pyfloat \<Rightarrow> string \<Rightarrow> rat \<Rightarrow> unit outcome \<times> wallet" where
  "add_funds s user_id amount tx_id now =
     (let s' = add_funds_apply s user_id amount tx_id now
      in guarded (add_funds_pre s user_id amount) s s' (add_funds_post s s' user_id amount))"

definition withdraw_funds_pre :: "wallet \<Rightarrow> string \<Rightarrow> string \<Rightarrow> pyfloat \<Rightarrow> string option" where
  "withdraw_funds_pre s user_id bank_account amount =
     asserts
       [(dict_has (balances s) user_id, ''R1 violated: User must exist''),
        (startswith bank_account ''PT'' \<and> 10 \<le> length bank_account,
           ''R2 violated: Invalid bank account''),
        (flt (Fin 0) amount \<and> fle amount (Fin 10000), ''R3 violated: Invalid withdrawal amount''),
        (fge (bal s user_id) amount, ''R4 violated: Insufficient balance''),
        (fge (fsub (bal s user_id) amount) (Fin 0),
           ''R5 violated: Would result in negative balance'')]"

definition withdraw_funds_apply :: "wallet \<Rightarrow> string \<Rightarrow> string \<Rightarrow> pyfloat \<Rightarrow> string \<Rightarrow> rat \<Rightarrow> wallet" where
  "withdraw_funds_apply s user_id bank_account amount tx_id now =
     s\<lparr>balances := dict_set (balances s) user_id (fsub (bal s user_id) amount),
       transactions := transactions s @
         [[(''id'', VStr tx_id), (''type'', VStr ''withdrawal''), (''user_id'', VStr user_id),
           (''amount'', VFloat amount), (''destination'', VStr bank_account),
           (''timestamp'', VFloat (Fin now)), (''status'', VStr ''completed'')]]\<rparr>"

definition withdraw_funds_post :: "wallet \<Rightarrow> wallet \<Rightarrow> string \<Rightarrow> string \<Rightarrow> pyfloat \<Rightarrow> string option" where
  "withdraw_funds_post s s' user_id bank_account amount =
     (let before = bal s user_id;
          old_balances = balances s;
          old_total = pysum (dict_values (balances s))
      in asserts
           [(flt (fabs (fsub (bal s' user_id) (fsub before amount))) lit_1e_9, ''E1 violated''),
            (balances_kept [user_id] old_balances s', ''E2 violated''),
            (flt (fabs (fsub (pysum (dict_values (balances s'))) (fsub old_total amount))) lit_1e_9,
               ''E3 violated''),
            (list_ex (\<lambda>t. py_eq (dict_get t ''type'') (VStr ''withdrawal'')
                         \<and> py_eq (dict_get t ''destination'') (VStr bank_account))
               (last_n 1 (transactions s')), ''E4 violated''),
            (verify_invariants s', ''E5 violated'')])"

definition withdraw_funds :: "wallet \<Rightarrow> string \<Rightarrow> string \<Rightarrow> pyfloat \<Rightarrow> string \<Rightarrow> rat \<Rightarrow> unit outcome \<times> wallet" where
  "withdraw_funds s user_id bank_account amount tx_id now =
     (let s' = withdraw_funds_apply s user_id bank_account amount tx_id now
      in guarded (withdraw_funds_pre s user_id bank_account amount) s s'
           (withdraw_funds_post s s' user_id bank_account amount))"

subsection \<open>Transfers\<close>

definition transfer_pre :: "wallet \<Rightarrow> string \<Rightarrow> string \<Rightarrow> pyfloat \<Rightarrow> string option" where
  "transfer_pre s sender receiver amount =
     asserts
       [(dict_has (balances s) sender \<and> dict_has (balances s) receiver,
           ''R1 violated: Both users must exist''),
        (sender \<noteq> receiver, ''R2 violated: Sender and receiver must be different''),
        (fgt amount (Fin 0), ''R3 violated: Amount must be positive''),
        (fge (bal s sender) amount, ''R4 violated: Insufficient funds''),
        (flt (fadd (bal s receiver) amount) PInf, ''R5 violated: Overflow risk'')]"

definition transfer_apply :: "wallet \<Rightarrow> string \<Rightarrow> string \<Rightarrow> pyfloat \<Rightarrow> string \<Rightarrow> rat \<Rightarrow> wallet" where
  "transfer_apply s sender receiver amount tx_id now =
     (let b1 = dict_set (balances s) sender (fsub (dict_at (balances s) sender) amount);
          b2 = dict_set b1 receiver (fadd (dict_at b1 receiver) amount)
      in s\<lparr>balances := b2,
           transactions := transactions s @
             [[(''id'', VStr tx_id), (''type'', VStr ''transfer''), (''from'', VStr sender),
               (''to'', VStr receiver), (''amount'', VFloat amount),
               (''timestamp'', VFloat (Fin now)), (''status'', VStr ''completed'')]]\<rparr>)"

definition transfer_post :: "wallet \<Rightarrow> wallet \<Rightarrow> string \<Rightarrow> string \<Rightarrow> pyfloat \<Rightarrow> string option" where
  "transfer_post s s' sender receiver amount =
     (let old_sender = bal s sender;
          old_receiver = bal s receiver;
          old_balances = balances s;
          total_before = pysum (dict_values (balances s));
          total_after = pysum (dict_values (balances s'))
      in asserts
           [(flt (fabs (fsub (bal s' sender) (fsub old_sender amount))) lit_1e_9, ''E1 violated''),
            (flt (fabs (fsub (bal s' receiver) (fadd old_receiver amount))) lit_1e_9,
               ''E2 violated''),
            (balances_kept [sender, receiver] old_balances s', ''E3 violated''),
            (flt (fabs (fsub total_before total_after)) lit_1e_9,
               ''E4 violated: Total balance changed''),
            (list_ex (\<lambda>t. py_eq (dict_get t ''type'') (VStr ''transfer'')
                         \<and> py_eq (dict_get t ''from'') (VStr sender)
                         \<and> py_eq (dict_get t ''to'') (VStr receiver))
               (last_n 1 (transactions s')), ''E5 violated''),
            (verify_invariants s', ''E6 violated'')])"

definition transfer :: "wallet \<Rightarrow> string \<Rightarrow> string \<Rightarrow> pyfloat \<Rightarrow> string \<Rightarrow> rat \<Rightarrow> unit outcome \<times> wallet" where
  "transfer s sender receiver amount tx_id now =
     (let s' = transfer_apply s sender receiver amount tx_id now
      in guarded (transfer_pre s sender receiver amount) s s'
           (transfer_post s s' sender receiver amount))"

subsection \<open>Interest\<close>

text \<open>
  The loop \<^verbatim>\<open>for user_id in list(self.balances.keys())\<close>. Each round draws a fresh id and
  timestamp: \<open>env i\<close> is the draw of round \<open>i\<close>.
\<close>

fun interest_loop :: "pyfloat \<Rightarrow> (nat \<Rightarrow> string \<times> rat) \<Rightarrow> nat \<Rightarrow> string list \<Rightarrow> wallet \<Rightarrow> wallet" where
  "interest_loop rate env i [] s = s"
| "interest_loop rate env i (user_id # rest) s =
     (let old = bal s user_id;
          interest = fmul old rate
      in interest_loop rate env (Suc i) rest
           (s\<lparr>balances := dict_set (balances s) user_id (fadd old interest),
              transactions := transactions s @
                [[(''id'', VStr (fst (env i))), (''type'', VStr ''interest''),
                  (''user_id'', VStr user_id), (''amount'', VFloat interest),
                  (''timestamp'', VFloat (Fin (snd (env i)))),
                  (''status'', VStr ''completed'')]]\<rparr>))"

definition apply_interest_pre :: "wallet \<Rightarrow> pyfloat \<Rightarrow> string option" where
  "apply_interest_pre s rate =
     asserts
       [(flt (Fin 0) rate \<and> fle rate lit_0_2, ''R1 violated: Invalid interest rate''),
        (list_all (\<lambda>b. flt (fmul b (fadd (Fin 1) rate)) PInf) (dict_values (balances s)),
           ''R2 violated: Overflow risk'')]"

definition apply_interest_apply :: "wallet \<Rightarrow> pyfloat \<Rightarrow> (nat \<Rightarrow> string \<times> rat) \<Rightarrow> wallet" where
  "apply_interest_apply s rate env = interest_loop rate env 0 (keys (balances s)) s"

definition apply_interest_post :: "wallet \<Rightarrow> wallet \<Rightarrow> pyfloat \<Rightarrow> string option" where
  "apply_interest_post s s' rate =
     (let total_before = pysum (dict_values (balances s));
          old_balances = balances s;
          old_tx_count = length (transactions s);
          total_after = pysum (dict_values (balances s'))
      in asserts
           [(list_all (\<lambda>(uid, b). flt (fabs (fsub (bal s' uid) (fmul b (fadd (Fin 1) rate)))) lit_1e_9)
               old_balances, ''E1 violated''),
            (flt (fabs (fsub total_after (fmul total_before (fadd (Fin 1) rate)))) lit_1e_6,
               ''E2 violated''),
            (length (transactions s') = old_tx_count + length old_balances, ''E3 violated''),
            (list_all (\<lambda>uid. list_ex (\<lambda>t. py_eq (dict_get t ''type'') (VStr ''interest'')
                                        \<and> py_eq (dict_get t ''user_id'') (VStr uid))
                              (last_n (length old_balances) (transactions s')))
               (keys old_balances), ''E4 violated''),
            (verify_invariants s', ''E5 violated'')])"

definition apply_interest :: "wallet \<Rightarrow> pyfloat \<Rightarrow> (nat \<Rightarrow> string \<times> rat) \<Rightarrow> unit outcome \<times> wallet" where
  "apply_interest s rate env =
     (let s' = apply_interest_apply s rate env
      in guarded (apply_interest_pre s rate) s s' (apply_interest_post s s' rate))"

subsection \<open>Spending limits\<close>

text \<open>An \<^verbatim>\<open>Optional[float]\<close> argument, as the value stored in the limit record.\<close>

fun opt_val :: "pyfloat option \<Rightarrow> pyval" where
  "opt_val None = VNone"
| "opt_val (Some a) = VFloat a"

definition set_spending_limits_pre :: "wallet \<Rightarrow> string \<Rightarrow> pyfloat option \<Rightarrow> pyfloat option \<Rightarrow> string option" where
  "set_spending_limits_pre s user_id daily monthly =
     asserts
       [(dict_has (balances s) user_id, ''R1 violated: User must exist''),
        ((case daily of None \<Rightarrow> True | Some d \<Rightarrow> fgt d (Fin 0))
           \<and> (case monthly of None \<Rightarrow> True | Some m \<Rightarrow> fgt m (Fin 0)),
           ''R2 violated: Limits must be positive or None''),
        (\<not> (case (daily, monthly) of (Some d, Some m) \<Rightarrow> fgt d m | _ \<Rightarrow> False),
           ''R3 violated: Daily limit exceeds monthly'')]"

definition set_spending_limits_apply :: "wallet \<Rightarrow> string \<Rightarrow> pyfloat option \<Rightarrow> pyfloat option \<Rightarrow> wallet" where
  "set_spending_limits_apply s user_id daily monthly =
     s\<lparr>spending_limits := dict_set (spending_limits s) user_id
         [(''daily'', opt_val daily), (''monthly'', opt_val monthly),
          (''daily_used'', VFloat (Fin 0)), (''monthly_used'', VFloat (Fin 0))]\<rparr>"

definition set_spending_limits_post :: "wallet \<Rightarrow> wallet \<Rightarrow> string \<Rightarrow> pyfloat option \<Rightarrow> pyfloat option \<Rightarrow> string option" where
  "set_spending_limits_post s s' user_id daily monthly =
     (let old_balances = balances s;
          limits = dict_at (spending_limits s') user_id
      in asserts
           [(py_eq (dict_get limits ''daily'') (opt_val daily), ''E1 violated''),
            (py_eq (dict_get limits ''monthly'') (opt_val monthly), ''E2 violated''),
            (py_eq (dict_get limits ''daily_used'') (VFloat (Fin 0)), ''E3 violated''),
            (py_eq (dict_get limits ''monthly_used'') (VFloat (Fin 0)), ''E4 violated''),
            (balances_kept [] old_balances s', ''E5 violated'')])"

definition set_spending_limits :: "wallet \<Rightarrow> string \<Rightarrow> pyfloat option \<Rightarrow> pyfloat option \<Rightarrow> unit outcome \<times> wallet" where
  "set_spending_limits s user_id daily monthly =
     (let s' = set_spending_limits_apply s user_id daily monthly
      in guarded (set_spending_limits_pre s user_id daily monthly) s s'
           (set_spending_limits_post s s' user_id daily monthly))"

subsection \<open>Payment methods\<close>

definition add_payment_method_pre :: "wallet \<Rightarrow> string \<Rightarrow> record_dict \<Rightarrow> string option" where
  "add_payment_method_pre s user_id method =
     asserts
       [(dict_has (balances s) user_id, ''R1 violated: User must exist''),
        (dict_has method ''type'', ''R2 violated: Invalid payment method''),
        (list_ex (\<lambda>t. py_eq (dict_get method ''type'') (VStr t))
           [''card'', ''bank_account'', ''paypal''], ''R3 violated: Invalid payment type'')]"

definition add_payment_method_apply :: "wallet \<Rightarrow> string \<Rightarrow> record_dict \<Rightarrow> wallet" where
  "add_payment_method_apply s user_id method =
     (let pm = (if \<not> dict_has (payment_methods s) user_id
                then dict_set (payment_methods s) user_id []
                else payment_methods s)
      in s\<lparr>payment_methods := dict_set pm user_id (dict_at pm user_id @ [method])\<rparr>)"

definition add_payment_method_post :: "wallet \<Rightarrow> wallet \<Rightarrow> string \<Rightarrow> record_dict \<Rightarrow> string option" where
  "add_payment_method_post s s' user_id method =
     (let old_count = length (case map_of (payment_methods s) user_id of None \<Rightarrow> [] | Some ms \<Rightarrow> ms);
          old_balances = balances s
      in asserts
           [(dict_has (payment_methods s') user_id, ''E1 violated''),
            (method \<in> set (dict_at (payment_methods s') user_id), ''E2 violated''),
            (length (dict_at (payment_methods s') user_id) = old_count + 1, ''E3 violated''),
            (balances_kept [] old_balances s', ''E4 violated'')])"

definition add_payment_method :: "wallet \<Rightarrow> string \<Rightarrow> record_dict \<Rightarrow> unit outcome \<times> wallet" where
  "add_payment_method s user_id method =
     (let s' = add_payment_method_apply s user_id method
      in guarded (add_payment_method_pre s user_id method) s s'
           (add_payment_method_post s s' user_id method))"

definition get_payment_methods :: "wallet \<Rightarrow> string \<Rightarrow> record_dict list outcome \<times> wallet" where
  "get_payment_methods s user_id =
     (case asserts [(dict_has (balances s) user_id, ''R1 violated: User must exist'')] of
        Some m \<Rightarrow> (Raised m, s)
      | None \<Rightarrow>
          (let old_methods = payment_methods s;
               result = (case map_of (payment_methods s) user_id of None \<Rightarrow> [] | Some ms \<Rightarrow> ms)
           in case asserts [(payment_methods s = old_methods, ''E3 violated: State modified'')] of
                Some m \<Rightarrow> (Raised m, s)
              | None \<Rightarrow> (Returned result, s)))"

subsection \<open>Transactions\<close>

text \<open>
  The sort key \<^verbatim>\<open>t.get("timestamp", 0)\<close>. Every record the wallet appends carries the
  finite float of \<^verbatim>\<open>time.time()\<close> (lemma \<open>reachable_timestamps\<close> below); the other
  cases of the key cannot arise from the wallet's own calls.
\<close>

definition timestamp_key :: "record_dict \<Rightarrow> rat" where
  "timestamp_key t =
     (case map_of t ''timestamp'' of
        None \<Rightarrow> 0
      | Some (VFloat (Fin r)) \<Rightarrow> r
      | Some (VInt i) \<Rightarrow> of_int i
      | Some _ \<Rightarrow> 0)"

text \<open>
  \<^verbatim>\<open>txs.sort(key=..., reverse=True)\<close>: a stable sort in descending order of the key.
  As in CPython, the list is reversed, sorted stably in ascending order, and reversed
  again, so that records with equal keys keep their order.
\<close>

definition sort_desc :: "('a \<Rightarrow> rat) \<Rightarrow> 'a list \<Rightarrow> 'a list" where
  "sort_desc f xs = rev (sort_key f (rev xs))"

text \<open>The chain \<^verbatim>\<open>result[i] >= result[i+1]\<close> over all adjacent pairs.\<close>

fun nonincreasing :: "rat list \<Rightarrow> bool" where
  "nonincreasing (x # y # rest) = (y \<le> x \<and> nonincreasing (y # rest))"
| "nonincreasing _ = True"

definition involves :: "string \<Rightarrow> record_dict \<Rightarrow> bool" where
  "involves user_id t =
     (py_eq (dict_get t ''user_id'') (VStr user_id)
      \<or> py_eq (dict_get t ''from'') (VStr user_id)
      \<or> py_eq (dict_get t ''to'') (VStr user_id))"

text \<open>\<^verbatim>\<open>txs[start:end]\<close> for \<open>0 \<le> start \<le> end\<close>.\<close>

definition slice :: "int \<Rightarrow> int \<Rightarrow> 'a list \<Rightarrow> 'a list" where
  "slice start end' xs = take (nat (end' - start)) (drop (nat start) xs)"

definition track_transactions_pre :: "wallet \<Rightarrow> string \<Rightarrow> int \<Rightarrow> int \<Rightarrow> string option" where
  "track_transactions_pre s user_id page page_size =
     asserts
       [(dict_has (balances s) user_id, ''R1 violated: User must exist''),
        (1 \<le> page, ''R2 violated: Page must be >= 1''),
        (1 \<le> page_size \<and> page_size \<le> 100, ''R3 violated: Invalid page size'')]"

definition track_transactions_result :: "wallet \<Rightarrow> string \<Rightarrow> record_dict option \<Rightarrow> int \<Rightarrow> int \<Rightarrow> record_dict list" where
  "track_transactions_result s user_id filters page page_size =
     (let txs = filter (involves user_id) (transactions s);
          txs = (case filters of
                   None \<Rightarrow> txs
                 | Some fs \<Rightarrow> foldl (\<lambda>txs (k, v). filter (\<lambda>t. py_eq (dict_get t k) v) txs) txs fs);
          txs = sort_desc timestamp_key txs;
          start = (page - 1) * page_size;
          end' = start + page_size
      in slice start end' txs)"

definition track_transactions_post :: "wallet \<Rightarrow> string \<Rightarrow> int \<Rightarrow> record_dict list \<Rightarrow> string option" where
  "track_transactions_post s user_id page_size result =
     (let old_balances = balances s
      in asserts
           [(int (length result) \<le> page_size, ''E1 violated''),
            (list_all (involves user_id) result, ''E2 violated''),
            (nonincreasing (map timestamp_key result), ''E3 violated''),
            (balances_kept [] old_balances s, ''E4 violated'')])"

definition track_transactions :: "wallet \<Rightarrow> string \<Rightarrow> record_dict option \<Rightarrow> int \<Rightarrow> int \<Rightarrow> record_dict list outcome \<times> wallet" where
  "track_transactions s user_id filters page page_size =
     (case track_transactions_pre s user_id page page_size of
        Some m \<Rightarrow> (Raised m, s)
      | None \<Rightarrow>
          (let result = track_transactions_result s user_id filters page page_size
           in case track_transactions_post s user_id page_size result of
                Some m \<Rightarrow> (Raised m, s)
              | None \<Rightarrow> (Returned result, s)))"

subsection \<open>Real-time updates\<close>

definition real_time_update_pre :: "wallet \<Rightarrow> string \<Rightarrow> pyfloat \<Rightarrow> string option" where
  "real_time_update_pre s user_id amount =
     asserts
       [(dict_has (balances s) user_id, ''R1 violated: User must exist''),
        (\<not> feq amount (Fin 0), ''R2 violated: Amount cannot be zero''),
        (fgt amount (Fin 0) \<or> fge (bal s user_id) (fabs amount),
           ''R3 violated: Insufficient balance for debit''),
        (fge (fadd (bal s user_id) amount) (Fin 0),
           ''R4 violated: Would result in negative balance'')]"

definition real_time_update_apply :: "wallet \<Rightarrow> string \<Rightarrow> pyfloat \<Rightarrow> string \<Rightarrow> rat \<Rightarrow> wallet" where
  "real_time_update_apply s user_id amount tx_id now =
     (let tx_type = (if fgt amount (Fin 0) then ''credit'' else ''debit'')
      in s\<lparr>balances := dict_set (balances s) user_id (fadd (bal s user_id) amount),
           transactions := transactions s @
             [[(''id'', VStr tx_id), (''type'', VStr tx_type), (''user_id'', VStr user_id),
               (''amount'', VFloat amount), (''timestamp'', VFloat (Fin now)),
               (''status'', VStr ''completed'')]]\<rparr>)"

definition real_time_update_post :: "wallet \<Rightarrow> wallet \<Rightarrow> string \<Rightarrow> pyfloat \<Rightarrow> string option" where
  "real_time_update_post s s' user_id amount =
     (let before = bal s user_id;
          old_balances = balances s
      in asserts
           [(flt (fabs (fsub (bal s' user_id) (fadd before amount))) lit_1e_9, ''E1 violated''),
            (balances_kept [user_id] old_balances s', ''E2 violated''),
            (list_ex (\<lambda>t. list_ex (\<lambda>ty. py_eq (dict_get t ''type'') (VStr ty)) [''credit'', ''debit'']
                         \<and> py_eq (dict_get t ''user_id'') (VStr user_id))
               (last_n 1 (transactions s')), ''E3 violated''),
            (verify_invariants s', ''E4 violated'')])"

definition real_time_update :: "wallet \<Rightarrow> string \<Rightarrow> pyfloat \<Rightarrow> string \<Rightarrow> rat \<Rightarrow> unit outcome \<times> wallet" where
  "real_time_update s user_id amount tx_id now =
     (let s' = real_time_update_apply s user_id amount tx_id now
      in guarded (real_time_update_pre s user_id amount) s s'
           (real_time_update_post s s' user_id amount))"

subsection \<open>Calls and runs\<close>

text \<open>
  The public methods as one datatype of calls, with the ids and timestamps drawn by each
  call. \<open>perform\<close> gives the outcome (whether the call returned or raised, the value
  dropped) and the state after the call; \<open>run\<close> performs a sequence of calls, going on
  after a raise as a caller that catches the exception would.
\<close>

datatype call =
    CreateAccount string string string
  | SetPin string string
  | AuthenticatePin string string
  | AddFunds string pyfloat string rat
  | WithdrawFunds string string pyfloat string rat
  | Transfer string string pyfloat string rat
  | ApplyInterest pyfloat "nat \<Rightarrow> string \<times> rat"
  | SetSpendingLimits string "pyfloat option" "pyfloat option"
  | AddPaymentMethod string record_dict
  | GetPaymentMethods string
  | TrackTransactions string "record_dict option" int int
  | RealTimeUpdate string pyfloat string rat
  | VerifyInvariants

definition forget :: "'a outcome \<times> wallet \<Rightarrow> unit outcome \<times> wallet" where
  "forget r = (case fst r of Returned _ \<Rightarrow> (Returned (), snd r) | Raised m \<Rightarrow> (Raised m, snd r))"

fun perform :: "wallet \<Rightarrow> call \<Rightarrow> unit outcome \<times> wallet" where
  "perform s (CreateAccount user_id email password) = create_account s user_id email password"
| "perform s (SetPin user_id pin) = set_pin s user_id pin"
| "perform s (AuthenticatePin user_id pin) = forget (authenticate_pin s user_id pin)"
| "perform s (AddFunds user_id amount tx_id now) = add_funds s user_id amount tx_id now"
| "perform s (WithdrawFunds user_id bank_account amount tx_id now) =
     withdraw_funds s user_id bank_account amount tx_id now"
| "perform s (Transfer sender receiver amount tx_id now) =
     transfer s sender receiver amount tx_id now"
| "perform s (ApplyInterest rate env) = apply_interest s rate env"
| "perform s (SetSpendingLimits user_id daily monthly) =
     set_spending_limits s user_id daily monthly"
| "perform s (AddPaymentMethod user_id method) = add_payment_method s user_id method"
| "perform s (GetPaymentMethods user_id) = forget (get_payment_methods s user_id)"
| "perform s (TrackTransactions user_id filters page page_size) =
     forget (track_transactions s user_id filters page page_size)"
| "perform s (RealTimeUpdate user_id amount tx_id now) =
     real_time_update s user_id amount tx_id now"
| "perform s VerifyInvariants = (Returned (), s)"

definition run :: "wallet \<Rightarrow> call list \<Rightarrow> wallet" where
  "run s cs = foldl (\<lambda>s c. snd (perform s c)) s cs"

section \<open>Specification-side notions\<close>



text \<open>Invariant I2 for one balance, as \<open>verify_invariants\<close> tests it: \<^verbatim>\<open>b >= 0\<close>.\<close>

definition nonneg :: "pyfloat \<Rightarrow> bool" where
  "nonneg b = fge b (Fin 0)"

definition balances_nonneg :: "wallet \<Rightarrow> bool" where
  "balances_nonneg s = list_all nonneg (dict_values (balances s))"

definition completed :: "record_dict \<Rightarrow> bool" where
  "completed t = (dict_get t ''status'' = VStr ''completed'')"

text \<open>
  What holds of a wallet in every state that calls can reach from the fresh wallet: the
  balances form a dictionary (distinct keys), no balance is negative, and every
  transaction carries the finite timestamp it was appended with.
\<close>

definition has_timestamp :: "record_dict \<Rightarrow> bool" where
  "has_timestamp t = (case map_of t ''timestamp'' of Some (VFloat (Fin r)) \<Rightarrow> True | _ \<Rightarrow> False)"

definition wf_wallet :: "wallet \<Rightarrow> bool" where
  "wf_wallet s = (distinct (keys (balances s)) \<and> balances_nonneg s
                  \<and> list_all has_timestamp (transactions s))"

text \<open>Invariants I3 to I5: every PIN, payment method and spending limit belongs to an account.\<close>

definition refs_ok :: "wallet \<Rightarrow> bool" where
  "refs_ok s =
     (list_all (\<lambda>uid. dict_has (balances s) uid) (keys (user_pins s))
      \<and> list_all (\<lambda>uid. dict_has (balances s) uid) (keys (payment_methods s))
      \<and> list_all (\<lambda>uid. dict_has (balances s) uid) (keys (spending_limits s)))"

subsection \<open>Records and numbers used in the statements\<close>



definition transfer_record :: "string \<Rightarrow> string \<Rightarrow> pyfloat \<Rightarrow> string \<Rightarrow> rat \<Rightarrow> record_dict" where
  "transfer_record sender receiver amount tx_id now =
     [(''id'', VStr tx_id), (''type'', VStr ''transfer''), (''from'', VStr sender),
      (''to'', VStr receiver), (''amount'', VFloat amount),
      (''timestamp'', VFloat (Fin now)), (''status'', VStr ''completed'')]"




text \<open>
  Binary64 numbers by their exact values. \<open>f_0_1\<close>, \<open>f_0_2\<close>, \<open>f_0_05\<close>, \<open>f_0_25\<close>,
  \<open>f_0_3\<close>, \<open>f_1_2\<close> and \<open>f_0_12\<close> are what Python reads \<^verbatim>\<open>0.1\<close>, \<^verbatim>\<open>0.2\<close>,
  \<^verbatim>\<open>0.05\<close>, \<^verbatim>\<open>0.25\<close>, \<^verbatim>\<open>0.3\<close>, \<^verbatim>\<open>1.2\<close> and \<^verbatim>\<open>0.12\<close> as;
  \<open>f_0_3_up\<close> is \<^verbatim>\<open>0.30000000000000004\<close>, \<open>f_0_1_up\<close> is \<^verbatim>\<open>0.10000000000000003\<close>,
  \<open>f_0_02_up\<close> is \<^verbatim>\<open>0.020000000000000004\<close>, \<open>f_0_12_up\<close> is \<^verbatim>\<open>0.12000000000000001\<close>;
  \<open>f_ulp_0_3\<close> and \<open>f_ulp_0_12\<close> are the gaps \<open>2^-54\<close> and \<open>2^-56\<close>.
\<close>

definition f_0_1 :: rat where
  "f_0_1 = 3602879701896397 / 36028797018963968"

definition f_0_2 :: rat where
  "f_0_2 = 3602879701896397 / 18014398509481984"

definition f_0_05 :: rat where
  "f_0_05 = 3602879701896397 / 72057594037927936"

definition f_0_25 :: rat where
  "f_0_25 = 1 / 4"

definition f_0_3 :: rat where
  "f_0_3 = 5404319552844595 / 18014398509481984"

definition f_0_3_up :: rat where
  "f_0_3_up = 1351079888211149 / 4503599627370496"

definition f_0_1_up :: rat where
  "f_0_1_up = 1801439850948199 / 18014398509481984"

definition f_1_2 :: rat where
  "f_1_2 = 5404319552844595 / 4503599627370496"

definition f_0_12 :: rat where
  "f_0_12 = 1080863910568919 / 9007199254740992"

definition f_0_02_up :: rat where
  "f_0_02_up = 1441151880758559 / 72057594037927936"

definition f_0_12_up :: rat where
  "f_0_12_up = 8646911284551353 / 72057594037927936"

definition f_ulp_0_3 :: rat where
  "f_ulp_0_3 = 1 / 18014398509481984"

definition f_ulp_0_12 :: rat where
  "f_ulp_0_12 = 1 / 72057594037927936"

subsection \<open>Example states\<close>

text \<open>
  The wallet after alice and bob opened accounts, bob set a PIN and alice deposited
  1000.
\<close>

definition demo_deposit :: record_dict where
  "demo_deposit =
     [(''id'', VStr ''tx1''), (''type'', VStr ''deposit''), (''user_id'', VStr ''alice''),
      (''amount'', VFloat (Fin 1000)), (''timestamp'', VFloat (Fin 1)),
      (''status'', VStr ''completed'')]"

definition demo_wallet :: wallet where
  "demo_wallet =
     \<lparr>balances = [(''alice'', Fin 1000), (''bob'', Fin 0)],
      transactions = [demo_deposit],
      user_pins = [(''bob'', ''1234'')], payment_methods = [], spending_limits = []\<rparr>"

definition demo_calls :: "call list" where
  "demo_calls =
     [CreateAccount ''alice'' ''alice@example.com'' ''password123'',
      CreateAccount ''bob'' ''bob@example.com'' ''password456'',
      SetPin ''bob'' ''1234'',
      AddFunds ''alice'' (Fin 1000) ''tx1'' 1]"


definition c5_deposit0 :: record_dict where
  "c5_deposit0 =
     [(''id'', VStr ''tx1''), (''type'', VStr ''deposit''), (''user_id'', VStr ''alice''),
      (''amount'', VFloat (Fin f_0_1)), (''timestamp'', VFloat (Fin 1)),
      (''status'', VStr ''completed'')]"



definition c5_wallet0 :: wallet where
  "c5_wallet0 = \<lparr>balances = [(''alice'', Fin f_0_1)], transactions = [c5_deposit0],
     user_pins = [], payment_methods = [], spending_limits = []\<rparr>"



text \<open>
  Alice holds 0.1 and bob 0.2; alice sends 0.05 to bob.
\<close>

definition c1_deposit_alice :: record_dict where
  "c1_deposit_alice =
     [(''id'', VStr ''tx1''), (''type'', VStr ''deposit''), (''user_id'', VStr ''alice''),
      (''amount'', VFloat (Fin f_0_1)), (''timestamp'', VFloat (Fin 1)),
      (''status'', VStr ''completed'')]"

definition c1_deposit_bob :: record_dict where
  "c1_deposit_bob =
     [(''id'', VStr ''tx2''), (''type'', VStr ''deposit''), (''user_id'', VStr ''bob''),
      (''amount'', VFloat (Fin f_0_2)), (''timestamp'', VFloat (Fin 2)),
      (''status'', VStr ''completed'')]"

definition c1_wallet0 :: wallet where
  "c1_wallet0 = \<lparr>balances = [(''alice'', Fin f_0_1), (''bob'', Fin f_0_2)],
     transactions = [c1_deposit_alice, c1_deposit_bob],
     user_pins = [], payment_methods = [], spending_limits = []\<rparr>"






text \<open>
  Alice holds \<open>2^53 + 2\<close> and bob 1; alice sends 1 to bob.
\<close>

definition big_wallet0 :: wallet where
  "big_wallet0 = \<lparr>balances = [(''alice'', Fin 9007199254740994), (''bob'', Fin 1)],
     transactions = [], user_pins = [], payment_methods = [], spending_limits = []\<rparr>"

definition big_wallet1 :: wallet where
  "big_wallet1 = \<lparr>balances = [(''alice'', Fin 9007199254740992), (''bob'', Fin 2)],
     transactions = [transfer_record ''alice'' ''bob'' (Fin 1) ''tx1'' 1],
     user_pins = [], payment_methods = [], spending_limits = []\<rparr>"

section \<open>Basic facts\<close>

lemma snd_guarded: "snd (guarded pre s s' post) = (if pre = None then s' else s)"
  by (simp add: guarded_def split: option.splits)



lemma asserts_Cons_None: "asserts ((c, m) # rest) = None \<longleftrightarrow> c \<and> asserts rest = None"
  by simp

lemma snd_forget [simp]: "snd (forget r) = snd r"
  by (simp add: forget_def split: outcome.splits)

lemma run_snoc: "run s (cs @ [c]) = snd (perform (run s cs) c)"
  by (simp add: run_def)

subsection \<open>Dictionaries\<close>

lemma map_of_dict_set: "map_of (dict_set d k v) = (map_of d)(k \<mapsto> v)"
  by (induction d k v rule: dict_set.induct) auto

lemma dict_has_dict_set: "dict_has (dict_set d k v) k' \<longleftrightarrow> k' = k \<or> dict_has d k'"
  by (simp add: dict_has_def map_of_dict_set)

lemma dict_at_dict_set: "dict_at (dict_set d k v) k' = (if k' = k then v else dict_at d k')"
  by (simp add: dict_at_def map_of_dict_set)

lemma dict_values_dict_set: "set (dict_values (dict_set d k v)) \<subseteq> insert v (set (dict_values d))"
  by (induction d k v rule: dict_set.induct) (auto simp: dict_values_def)

lemma dict_at_in_values:
  assumes "dict_has d k"
  shows "dict_at d k \<in> set (dict_values d)"
proof -
  from assms obtain v where v: "map_of d k = Some v"
    by (auto simp: dict_has_def)
  then have "(k, v) \<in> set d" by (rule map_of_SomeD)
  then have "snd (k, v) \<in> snd ` set d" by (rule imageI)
  with v show ?thesis by (simp add: dict_at_def dict_values_def)
qed

lemma dict_has_keys: "dict_has d k \<longleftrightarrow> k \<in> set (keys d)"
  by (simp add: dict_has_def keys_def map_of_eq_None_iff)

subsection \<open>The precondition asserts, unfolded\<close>

lemma add_funds_pre_iff:
  "add_funds_pre s user_id amount = None \<longleftrightarrow>
     dict_has (balances s) user_id \<and> fgt amount (Fin 0) \<and> fle amount (Fin 1000000)
     \<and> flt (fadd (bal s user_id) amount) PInf"
  by (auto simp: add_funds_pre_def)

lemma withdraw_funds_pre_iff:
  "withdraw_funds_pre s user_id bank_account amount = None \<longleftrightarrow>
     dict_has (balances s) user_id
     \<and> startswith bank_account ''PT'' \<and> 10 \<le> length bank_account
     \<and> flt (Fin 0) amount \<and> fle amount (Fin 10000)
     \<and> fge (bal s user_id) amount \<and> fge (fsub (bal s user_id) amount) (Fin 0)"
  by (auto simp: withdraw_funds_pre_def)

lemma transfer_pre_iff:
  "transfer_pre s sender receiver amount = None \<longleftrightarrow>
     dict_has (balances s) sender \<and> dict_has (balances s) receiver \<and> sender \<noteq> receiver
     \<and> fgt amount (Fin 0) \<and> fge (bal s sender) amount
     \<and> flt (fadd (bal s receiver) amount) PInf"
  by (auto simp: transfer_pre_def)

lemma apply_interest_pre_iff:
  "apply_interest_pre s rate = None \<longleftrightarrow>
     flt (Fin 0) rate \<and> fle rate lit_0_2
     \<and> list_all (\<lambda>b. flt (fmul b (fadd (Fin 1) rate)) PInf) (dict_values (balances s))"
  by (auto simp: apply_interest_pre_def)

lemma real_time_update_pre_iff:
  "real_time_update_pre s user_id amount = None \<longleftrightarrow>
     dict_has (balances s) user_id \<and> \<not> feq amount (Fin 0)
     \<and> (fgt amount (Fin 0) \<or> fge (bal s user_id) (fabs amount))
     \<and> fge (fadd (bal s user_id) amount) (Fin 0)"
  by (auto simp: real_time_update_pre_def)

subsection \<open>Rounding keeps the sign\<close>

lemma pow2_pos: "0 < pow2 e"
  by (simp add: pow2_def)

lemma round_half_even_nonneg: "0 \<le> x \<Longrightarrow> 0 \<le> round_half_even x"
  by (auto simp: round_half_even_def Let_def)

lemma nonneg_simps [simp]:
  "nonneg (Fin x) = (0 \<le> x)" "nonneg PInf" "\<not> nonneg NInf" "\<not> nonneg NaN"
  by (auto simp: nonneg_def fge_def fle_def)

lemma nonneg_rnd:
  assumes "0 \<le> x"
  shows "nonneg (rnd x)"
proof (cases "x = 0")
  case True
  then show ?thesis by (simp add: rnd_def)
next
  case False
  define q where "q = max (ilog2 \<bar>x\<bar> - 52) (- 1074)"
  have "0 \<le> x / pow2 q"
    using assms pow2_pos [of q] by simp
  then have "0 \<le> round_half_even (x / pow2 q)"
    by (rule round_half_even_nonneg)
  then have "0 \<le> rat_of_int (round_half_even (x / pow2 q)) * pow2 q"
    using pow2_pos [of q] by simp
  with False assms show ?thesis
    by (simp add: rnd_def Let_def q_def)
qed

lemma nonneg_fadd: "nonneg a \<Longrightarrow> nonneg b \<Longrightarrow> nonneg (fadd a b)"
  by (cases a; cases b) (simp_all add: nonneg_rnd)

lemma pos_nonneg: "fgt a (Fin 0) \<Longrightarrow> nonneg a"
  by (cases a) (simp_all add: fgt_def)

lemma nonneg_interest:
  assumes "nonneg b" "flt (Fin 0) rate" "fle rate lit_0_2"
  shows "nonneg (fadd b (fmul b rate))"
proof -
  from assms(2,3) obtain q where q: "rate = Fin q" "0 < q"
    by (cases rate) (auto simp: fle_def lit_0_2_def)
  from assms(1) q(2) have "nonneg (fmul b rate)"
    unfolding q(1) by (cases b) (simp_all add: nonneg_rnd)
  with assms(1) show ?thesis by (rule nonneg_fadd)
qed

lemma nonneg_transfer_sender:
  assumes "fge sb a" "fgt a (Fin 0)" "flt (fadd rb a) PInf"
  shows "nonneg (fsub sb a)"
proof -
  from assms(2,3) obtain y where y: "a = Fin y" "0 < y"
    by (cases a; cases rb) (auto simp: fgt_def)
  from assms(1) show ?thesis
    unfolding y(1) by (cases sb) (auto simp: fge_def fle_def fsub_def intro!: nonneg_rnd)
qed

subsection \<open>The binary exponent and the rounding of given numbers\<close>

lemma pow2_powi: "pow2 e = 2 powi e"
  by (simp add: pow2_def power_int_def inverse_eq_divide power_one_over [symmetric] del: power_one_over)

lemma pow2_strict_mono: "a < b \<Longrightarrow> pow2 a < pow2 b"
  by (simp add: pow2_powi power_int_strict_increasing)

lemma pow2_less_cancel: "pow2 a < pow2 b \<Longrightarrow> a < b"
  by (rule ccontr) (use power_int_increasing [of b a "2::rat"] in \<open>simp add: pow2_powi not_less\<close>)

lemma ilog2_bounds:
  assumes "0 < x"
  shows "pow2 (ilog2 x) \<le> x \<and> x < pow2 (ilog2 x + 1)"
proof -
  obtain p q where pq: "quotient_of x = (p, q)" by (cases "quotient_of x")
  then have q: "0 < q" by (rule quotient_of_denom_pos)
  from pq have x: "x = of_int p / of_int q" by (rule quotient_of_div)
  with assms q have p: "0 < p" by (simp add: zero_less_divide_iff)
  define d where "d = bitlen p - bitlen q"
  from bitlen_bounds [OF p] have bp: "2 ^ nat (bitlen p - 1) \<le> p" "p < 2 ^ nat (bitlen p)"
    by simp_all
  from bitlen_bounds [OF q] have bq: "2 ^ nat (bitlen q - 1) \<le> q" "q < 2 ^ nat (bitlen q)"
    by simp_all
  have bp1: "1 \<le> bitlen p" using p by (simp add: bitlen_alt_def)
  have bq1: "1 \<le> bitlen q" using q by (simp add: bitlen_alt_def)
  have P_lo: "(2::rat) powi (bitlen p - 1) \<le> of_int p"
  proof -
    have "(2::rat) powi (bitlen p - 1) = of_int (2 ^ nat (bitlen p - 1))"
      using bp1 by (simp add: power_int_def)
    also have "\<dots> \<le> of_int p" using bp(1) by (simp only: of_int_le_iff)
    finally show ?thesis .
  qed
  have P_hi: "of_int p < (2::rat) powi (bitlen p)"
  proof -
    have "(of_int p :: rat) < of_int (2 ^ nat (bitlen p))" using bp(2) by (simp only: of_int_less_iff)
    also have "\<dots> = 2 powi (bitlen p)" using bp1 by (simp add: power_int_def)
    finally show ?thesis .
  qed
  have Q_lo: "(2::rat) powi (bitlen q - 1) \<le> of_int q"
  proof -
    have "(2::rat) powi (bitlen q - 1) = of_int (2 ^ nat (bitlen q - 1))"
      using bq1 by (simp add: power_int_def)
    also have "\<dots> \<le> of_int q" using bq(1) by (simp only: of_int_le_iff)
    finally show ?thesis .
  qed
  have Q_hi: "of_int q < (2::rat) powi (bitlen q)"
  proof -
    have "(of_int q :: rat) < of_int (2 ^ nat (bitlen q))" using bq(2) by (simp only: of_int_less_iff)
    also have "\<dots> = 2 powi (bitlen q)" using bq1 by (simp add: power_int_def)
    finally show ?thesis .
  qed
  have qpos: "(0::rat) < of_int q" using q by simp
  have hi: "x < pow2 (d + 1)"
  proof -
    have "of_int p < (2::rat) powi (bitlen p)" by (rule P_hi)
    also have "\<dots> = 2 powi (d + 1) * 2 powi (bitlen q - 1)"
      by (simp add: d_def flip: power_int_add)
    also have "\<dots> \<le> 2 powi (d + 1) * of_int q"
      using Q_lo by (intro mult_left_mono) simp_all
    finally show ?thesis
      using qpos by (simp add: x pow2_powi pos_divide_less_eq)
  qed
  have lo: "pow2 (d - 1) \<le> x"
  proof -
    have "(2::rat) powi (d - 1) * of_int q \<le> 2 powi (d - 1) * 2 powi (bitlen q)"
      using Q_hi by (intro mult_left_mono) simp_all
    also have "\<dots> = 2 powi (bitlen p - 1)"
      by (simp add: d_def flip: power_int_add)
    also have "\<dots> \<le> of_int p" by (rule P_lo)
    finally show ?thesis
      using qpos by (simp add: x pow2_powi pos_le_divide_eq)
  qed
  show ?thesis
  proof (cases "pow2 d \<le> x")
    case True
    with hi pq show ?thesis by (simp add: ilog2_def d_def)
  next
    case False
    with lo pq show ?thesis by (simp add: ilog2_def d_def)
  qed
qed

lemma ilog2_unique:
  assumes "0 < x" "pow2 e \<le> x" "x < pow2 (e + 1)"
  shows "ilog2 x = e"
proof -
  from ilog2_bounds [OF assms(1)]
  have b: "pow2 (ilog2 x) \<le> x" "x < pow2 (ilog2 x + 1)" by simp_all
  from b(1) assms(3) have "pow2 (ilog2 x) < pow2 (e + 1)" by (rule le_less_trans)
  then have "ilog2 x < e + 1" by (rule pow2_less_cancel)
  moreover from assms(2) b(2) have "pow2 e < pow2 (ilog2 x + 1)" by (rule le_less_trans)
  then have "e < ilog2 x + 1" by (rule pow2_less_cancel)
  ultimately show ?thesis by simp
qed

text \<open>
  Rounding a given number: once the binary exponent \<open>e\<close> is known, the result is the
  integer nearest to \<open>x / 2^q\<close> (ties to even), scaled back by \<open>2^q\<close>.
\<close>

lemma round_half_even_near:
  assumes "\<bar>2 * x - 2 * of_int m\<bar> < 1"
  shows "round_half_even x = m"
proof (cases "of_int m \<le> x")
  case True
  with assms have "\<lfloor>x\<rfloor> = m" by (intro floor_unique) auto
  with assms True show ?thesis by (simp add: round_half_even_def)
next
  case False
  with assms have "\<lfloor>x\<rfloor> = m - 1" by (intro floor_unique) auto
  with assms False show ?thesis by (simp add: round_half_even_def Let_def)
qed

lemma round_half_even_tie_down:
  assumes "2 * x = 2 * of_int m + 1" "even m"
  shows "round_half_even x = m"
proof -
  from assms(1) have "\<lfloor>x\<rfloor> = m" by (intro floor_unique) auto
  moreover from assms(1) have "x - of_int m = 1 / 2" by (simp add: field_simps)
  ultimately show ?thesis using assms(2) by (simp add: round_half_even_def)
qed

lemma round_half_even_tie_up:
  assumes "2 * x = 2 * of_int m - 1" "even m"
  shows "round_half_even x = m"
proof -
  from assms(1) have f: "\<lfloor>x\<rfloor> = m - 1" by (intro floor_unique) auto
  moreover from assms(1) have "x - of_int (m - 1) = 1 / 2" by (simp add: field_simps)
  ultimately show ?thesis using assms(2) by (simp add: round_half_even_def Let_def)
qed

lemma rnd_eqI:
  assumes "pow2 e \<le> \<bar>x\<bar>" "\<bar>x\<bar> < pow2 (e + 1)"
    and "q = max (e - 52) (- 1074)"
    and "round_half_even (x / pow2 q) = m"
    and "y = of_int m * pow2 q"
    and "\<bar>y\<bar> < 2 ^ 1024"
  shows "rnd x = Fin y"
proof -
  have "0 < pow2 e" by (simp add: pow2_powi)
  also note assms(1)
  finally have pos: "0 < \<bar>x\<bar>" .
  then have "ilog2 \<bar>x\<bar> = e" using assms(1,2) by (rule ilog2_unique)
  with pos assms(3,4,5,6) show ?thesis
    by (simp add: rnd_def Let_def)
qed

lemma pow2_numeral [simp]: "pow2 (numeral n) = 2 ^ numeral n"
  by (simp add: pow2_def)

lemma pow2_neg_numeral [simp]: "pow2 (- numeral n) = 1 / 2 ^ numeral n"
  by (simp add: pow2_def)

lemma pow2_0 [simp]: "pow2 0 = 1"
  by (simp add: pow2_def)

lemma pow2_1 [simp]: "pow2 1 = 2"
  by (simp add: pow2_def)

lemma pow2_m1 [simp]: "pow2 (- 1) = 1 / 2"
  by (simp add: pow2_def)

subsection \<open>The rounding error\<close>












subsection \<open>Rounding of the numbers in the examples\<close>

lemma rnd_0 [simp]: "rnd 0 = Fin 0"
  by (simp add: rnd_def)

lemma rnd_0_1: "rnd (f_0_1) = Fin f_0_1"
proof (rule rnd_eqI [where e = "- 4" and q = "- 56" and m = 7205759403792794])
  show "round_half_even ((f_0_1) / pow2 (- 56)) = 7205759403792794"
    by (rule round_half_even_near) (simp add: f_0_1_def)
qed (simp_all add: f_0_1_def)

lemma rnd_0_2: "rnd (f_0_2) = Fin f_0_2"
proof (rule rnd_eqI [where e = "- 3" and q = "- 55" and m = 7205759403792794])
  show "round_half_even ((f_0_2) / pow2 (- 55)) = 7205759403792794"
    by (rule round_half_even_near) (simp add: f_0_2_def)
qed (simp_all add: f_0_2_def)

















lemma rnd_int_9007199254740993: "rnd (9007199254740993) = Fin 9007199254740992"
proof (rule rnd_eqI [where e = 53 and q = 1 and m = 4503599627370496])
  show "round_half_even ((9007199254740993) / pow2 1) = 4503599627370496"
    by (rule round_half_even_tie_down) simp_all
qed simp_all

lemma rnd_int_9007199254740994: "rnd (9007199254740994) = Fin 9007199254740994"
proof (rule rnd_eqI [where e = 53 and q = 1 and m = 4503599627370497])
  show "round_half_even ((9007199254740994) / pow2 1) = 4503599627370497"
    by (rule round_half_even_near) simp
qed simp_all

lemma rnd_int_9007199254740995: "rnd (9007199254740995) = Fin 9007199254740996"
proof (rule rnd_eqI [where e = 53 and q = 1 and m = 4503599627370498])
  show "round_half_even ((9007199254740995) / pow2 1) = 4503599627370498"
    by (rule round_half_even_tie_up) simp_all
qed simp_all

lemma rnd_int_9007199254740992: "rnd (9007199254740992) = Fin 9007199254740992"
proof (rule rnd_eqI [where e = 53 and q = 1 and m = 4503599627370496])
  show "round_half_even ((9007199254740992) / pow2 1) = 4503599627370496"
    by (rule round_half_even_near) simp
qed simp_all

lemma rnd_int_2: "rnd (2) = Fin 2"
proof (rule rnd_eqI [where e = 1 and q = "- 51" and m = 4503599627370496])
  show "round_half_even ((2) / pow2 (- 51)) = 4503599627370496"
    by (rule round_half_even_near) simp
qed simp_all

lemma rnd_int_1: "rnd (1) = Fin 1"
proof (rule rnd_eqI [where e = 0 and q = "- 52" and m = 4503599627370496])
  show "round_half_even ((1) / pow2 (- 52)) = 4503599627370496"
    by (rule round_half_even_near) simp
qed simp_all


text \<open>
  The constants are the binary64 numbers nearest to the decimal literals: reading
  \<^verbatim>\<open>0.1\<close>, \<^verbatim>\<open>0.2\<close>, \<^verbatim>\<open>0.05\<close>, \<^verbatim>\<open>1e-9\<close> or \<^verbatim>\<open>1e-6\<close> is rounding the decimal.
\<close>

lemma literal_0_1: "rnd (1 / 10) = Fin f_0_1"
proof (rule rnd_eqI [where e = "- 4" and q = "- 56" and m = 7205759403792794])
  show "round_half_even ((1 / 10) / pow2 (- 56)) = 7205759403792794"
    by (rule round_half_even_near) (simp add: f_0_1_def)
qed (simp_all add: f_0_1_def)

lemma literal_0_2: "rnd (1 / 5) = Fin f_0_2"
proof (rule rnd_eqI [where e = "- 3" and q = "- 55" and m = 7205759403792794])
  show "round_half_even ((1 / 5) / pow2 (- 55)) = 7205759403792794"
    by (rule round_half_even_near) (simp add: f_0_2_def)
qed (simp_all add: f_0_2_def)

lemma literal_0_05: "rnd (1 / 20) = Fin f_0_05"
proof (rule rnd_eqI [where e = "- 5" and q = "- 57" and m = 7205759403792794])
  show "round_half_even ((1 / 20) / pow2 (- 57)) = 7205759403792794"
    by (rule round_half_even_near) (simp add: f_0_05_def)
qed (simp_all add: f_0_05_def)

lemma literal_lit_0_2: "rnd (1 / 5) = lit_0_2"
  unfolding lit_0_2_def
proof (rule rnd_eqI [where e = "- 3" and q = "- 55" and m = 7205759403792794])
  show "round_half_even ((1 / 5) / pow2 (- 55)) = 7205759403792794"
    by (rule round_half_even_near) simp
qed simp_all

lemma literal_1e_9: "rnd (1 / 10 ^ 9) = lit_1e_9"
  unfolding lit_1e_9_def
proof (rule rnd_eqI [where e = "- 30" and q = "- 82" and m = 4835703278458517])
  show "round_half_even ((1 / 10 ^ 9) / pow2 (- 82)) = 4835703278458517"
    by (rule round_half_even_near) simp
qed simp_all

lemma literal_1e_6: "rnd (1 / 10 ^ 6) = lit_1e_6"
  unfolding lit_1e_6_def
proof (rule rnd_eqI [where e = "- 20" and q = "- 72" and m = 4722366482869645])
  show "round_half_even ((1 / 10 ^ 6) / pow2 (- 72)) = 4722366482869645"
    by (rule round_half_even_near) simp
qed simp_all

lemmas float_consts = f_0_1_def f_0_2_def f_0_05_def f_0_25_def f_0_3_def f_0_3_up_def
  f_0_1_up_def f_1_2_def f_0_12_def f_0_02_up_def f_0_12_up_def f_ulp_0_3_def f_ulp_0_12_def

lemmas float_ops = fsub_def fle_def fge_def fgt_def lit_1e_9_def lit_1e_6_def lit_0_2_def pysum_def

lemmas dict_ops = dict_has_def dict_at_def bal_def dict_values_def keys_def dict_get_def
  balances_kept_def last_n_def

subsection \<open>Non-negative balances are preserved\<close>

lemma balances_nonneg_set:
  "list_all nonneg (dict_values d) \<Longrightarrow> nonneg v \<Longrightarrow> list_all nonneg (dict_values (dict_set d k v))"
  using dict_values_dict_set [of d k v] by (auto simp: list_all_iff)

lemma balances_nonneg_at:
  "list_all nonneg (dict_values d) \<Longrightarrow> dict_has d k \<Longrightarrow> nonneg (dict_at d k)"
  using dict_at_in_values [of d k] by (auto simp: list_all_iff)

lemma interest_loop_nonneg:
  assumes "flt (Fin 0) rate" "fle rate lit_0_2"
  shows "balances_nonneg s \<Longrightarrow> \<forall>k \<in> set ks. dict_has (balances s) k \<Longrightarrow>
         balances_nonneg (interest_loop rate env i ks s)"
proof (induction ks arbitrary: i s)
  case Nil
  then show ?case by simp
next
  case (Cons k ks)
  let ?s1 = "s\<lparr>balances := dict_set (balances s) k (fadd (bal s k) (fmul (bal s k) rate)),
              transactions := transactions s @
                [[(''id'', VStr (fst (env i))), (''type'', VStr ''interest''),
                  (''user_id'', VStr k), (''amount'', VFloat (fmul (bal s k) rate)),
                  (''timestamp'', VFloat (Fin (snd (env i)))),
                  (''status'', VStr ''completed'')]]\<rparr>"
  have "nonneg (bal s k)"
    using Cons.prems by (simp add: bal_def balances_nonneg_def balances_nonneg_at)
  then have "nonneg (fadd (bal s k) (fmul (bal s k) rate))"
    using assms by (rule nonneg_interest)
  with Cons.prems(1) have 1: "balances_nonneg ?s1"
    by (simp add: balances_nonneg_def balances_nonneg_set)
  from Cons.prems(2) have 2: "\<forall>k \<in> set ks. dict_has (balances ?s1) k"
    by (simp add: dict_has_dict_set)
  from Cons.IH [OF 1 2, of "Suc i"] show ?case
    by (simp add: Let_def)
qed

lemma create_account_nonneg:
  "balances_nonneg s \<Longrightarrow> balances_nonneg (create_account_apply s user_id)"
  by (simp add: create_account_apply_def balances_nonneg_def balances_nonneg_set)

lemma add_funds_nonneg:
  assumes "balances_nonneg s" "add_funds_pre s user_id amount = None"
  shows "balances_nonneg (add_funds_apply s user_id amount tx_id now)"
proof -
  from assms(2) have pre: "dict_has (balances s) user_id" "fgt amount (Fin 0)"
    by (simp_all add: add_funds_pre_iff)
  from assms(1) pre(1) have "nonneg (bal s user_id)"
    by (simp add: bal_def balances_nonneg_def balances_nonneg_at)
  then have "nonneg (fadd (bal s user_id) amount)"
    using pre(2) by (simp add: nonneg_fadd pos_nonneg)
  with assms(1) show ?thesis
    by (simp add: add_funds_apply_def balances_nonneg_def balances_nonneg_set)
qed

lemma withdraw_funds_nonneg:
  assumes "balances_nonneg s" "withdraw_funds_pre s user_id bank_account amount = None"
  shows "balances_nonneg (withdraw_funds_apply s user_id bank_account amount tx_id now)"
proof -
  from assms(2) have "nonneg (fsub (bal s user_id) amount)"
    by (simp add: withdraw_funds_pre_iff nonneg_def)
  with assms(1) show ?thesis
    by (simp add: withdraw_funds_apply_def balances_nonneg_def balances_nonneg_set)
qed

lemma transfer_nonneg:
  assumes "balances_nonneg s" "transfer_pre s sender receiver amount = None"
  shows "balances_nonneg (transfer_apply s sender receiver amount tx_id now)"
proof -
  from assms(2) have pre: "dict_has (balances s) sender" "dict_has (balances s) receiver"
    "sender \<noteq> receiver" "fgt amount (Fin 0)" "fge (bal s sender) amount"
    "flt (fadd (bal s receiver) amount) PInf"
    by (simp_all add: transfer_pre_iff)
  let ?b1 = "dict_set (balances s) sender (fsub (dict_at (balances s) sender) amount)"
  have "nonneg (fsub (dict_at (balances s) sender) amount)"
    using pre(5,4,6) unfolding bal_def by (rule nonneg_transfer_sender)
  with assms(1) have b1: "list_all nonneg (dict_values ?b1)"
    by (simp add: balances_nonneg_def balances_nonneg_set)
  have "dict_at ?b1 receiver = dict_at (balances s) receiver"
    using pre(3) by (simp add: dict_at_dict_set)
  moreover have "nonneg (dict_at (balances s) receiver)"
    using assms(1) pre(2) by (simp add: balances_nonneg_def balances_nonneg_at)
  ultimately have "nonneg (fadd (dict_at ?b1 receiver) amount)"
    using pre(4) by (simp add: nonneg_fadd pos_nonneg)
  with b1 show ?thesis
    by (simp add: transfer_apply_def Let_def balances_nonneg_def balances_nonneg_set)
qed

lemma apply_interest_nonneg:
  assumes "balances_nonneg s" "apply_interest_pre s rate = None"
  shows "balances_nonneg (apply_interest_apply s rate env)"
proof -
  from assms(2) have pre: "flt (Fin 0) rate" "fle rate lit_0_2"
    by (simp_all add: apply_interest_pre_iff)
  have "\<forall>k \<in> set (keys (balances s)). dict_has (balances s) k"
    by (simp add: dict_has_keys)
  with pre assms(1) show ?thesis
    unfolding apply_interest_apply_def by (rule interest_loop_nonneg)
qed

lemma real_time_update_nonneg:
  assumes "balances_nonneg s" "real_time_update_pre s user_id amount = None"
  shows "balances_nonneg (real_time_update_apply s user_id amount tx_id now)"
proof -
  from assms(2) have "nonneg (fadd (bal s user_id) amount)"
    by (simp add: real_time_update_pre_iff nonneg_def)
  with assms(1) show ?thesis
    by (simp add: real_time_update_apply_def Let_def balances_nonneg_def balances_nonneg_set)
qed

lemma perform_nonneg: "balances_nonneg s \<Longrightarrow> balances_nonneg (snd (perform s c))"
proof (cases c)
  case (SetPin user_id pin)
  assume "balances_nonneg s"
  with SetPin show ?thesis
    by (simp add: set_pin_def Let_def snd_guarded set_pin_apply_def balances_nonneg_def)
next
  case (SetSpendingLimits user_id daily monthly)
  assume "balances_nonneg s"
  with SetSpendingLimits show ?thesis
    by (simp add: set_spending_limits_def Let_def snd_guarded set_spending_limits_apply_def
        balances_nonneg_def)
next
  case (AddPaymentMethod user_id pm)
  assume "balances_nonneg s"
  with AddPaymentMethod show ?thesis
    by (simp add: add_payment_method_def Let_def snd_guarded add_payment_method_apply_def
        balances_nonneg_def)
qed (simp_all add: Let_def snd_guarded create_account_def create_account_nonneg
      add_funds_def add_funds_nonneg withdraw_funds_def withdraw_funds_nonneg
      transfer_def transfer_nonneg apply_interest_def apply_interest_nonneg
      real_time_update_def real_time_update_nonneg
      authenticate_pin_def get_payment_methods_def track_transactions_def split: option.splits)

lemma run_nonneg: "balances_nonneg s \<Longrightarrow> balances_nonneg (run s cs)"
  unfolding run_def
  by (induction cs arbitrary: s) (simp_all add: perform_nonneg)


subsection \<open>Reachable states are well-formed\<close>

lemma keys_dict_set:
  "keys (dict_set d k v) = (if k \<in> set (keys d) then keys d else keys d @ [k])"
  by (induction d k v rule: dict_set.induct) (auto simp: keys_def)

lemma distinct_dict_set: "distinct (keys d) \<Longrightarrow> distinct (keys (dict_set d k v))"
  by (simp add: keys_dict_set)

lemma interest_loop_keys:
  "set ks \<subseteq> set (keys (balances s)) \<Longrightarrow>
   keys (balances (interest_loop rate env i ks s)) = keys (balances s)"
proof (induction ks arbitrary: i s)
  case Nil
  then show ?case by simp
next
  case (Cons k ks)
  let ?s1 = "s\<lparr>balances := dict_set (balances s) k (fadd (bal s k) (fmul (bal s k) rate)),
              transactions := transactions s @
                [[(''id'', VStr (fst (env i))), (''type'', VStr ''interest''),
                  (''user_id'', VStr k), (''amount'', VFloat (fmul (bal s k) rate)),
                  (''timestamp'', VFloat (Fin (snd (env i)))),
                  (''status'', VStr ''completed'')]]\<rparr>"
  from Cons.prems have k: "keys (balances ?s1) = keys (balances s)"
    by (simp add: keys_dict_set)
  with Cons.prems have "set ks \<subseteq> set (keys (balances ?s1))" by simp
  from Cons.IH [OF this, of "Suc i"] k show ?case
    by (simp add: Let_def)
qed

lemma interest_loop_timestamps:
  "list_all has_timestamp (transactions s) \<Longrightarrow>
   list_all has_timestamp (transactions (interest_loop rate env i ks s))"
  by (induction ks arbitrary: i s) (simp_all add: Let_def has_timestamp_def)

lemma perform_distinct:
  "distinct (keys (balances s)) \<Longrightarrow> distinct (keys (balances (snd (perform s c))))"
proof (cases c)
  case (ApplyInterest rate env)
  assume "distinct (keys (balances s))"
  with ApplyInterest show ?thesis
    by (simp add: apply_interest_def Let_def snd_guarded apply_interest_apply_def
        interest_loop_keys)
next
  case (AddPaymentMethod user_id pm)
  assume "distinct (keys (balances s))"
  with AddPaymentMethod show ?thesis
    by (simp add: add_payment_method_def Let_def snd_guarded add_payment_method_apply_def)
qed (simp_all add: Let_def snd_guarded distinct_dict_set
      create_account_def create_account_apply_def set_pin_def set_pin_apply_def
      authenticate_pin_def add_funds_def add_funds_apply_def
      withdraw_funds_def withdraw_funds_apply_def transfer_def transfer_apply_def
      set_spending_limits_def set_spending_limits_apply_def
      get_payment_methods_def
      track_transactions_def real_time_update_def real_time_update_apply_def
      split: option.splits)

lemma perform_timestamps:
  "list_all has_timestamp (transactions s) \<Longrightarrow>
   list_all has_timestamp (transactions (snd (perform s c)))"
proof (cases c)
  case (ApplyInterest rate env)
  assume "list_all has_timestamp (transactions s)"
  with ApplyInterest show ?thesis
    by (simp add: apply_interest_def Let_def snd_guarded apply_interest_apply_def
        interest_loop_timestamps)
next
  case (AddPaymentMethod user_id pm)
  assume "list_all has_timestamp (transactions s)"
  with AddPaymentMethod show ?thesis
    by (simp add: add_payment_method_def Let_def snd_guarded add_payment_method_apply_def)
qed (simp_all add: Let_def snd_guarded has_timestamp_def
      create_account_def create_account_apply_def set_pin_def set_pin_apply_def
      authenticate_pin_def add_funds_def add_funds_apply_def
      withdraw_funds_def withdraw_funds_apply_def transfer_def transfer_apply_def
      set_spending_limits_def set_spending_limits_apply_def
      get_payment_methods_def
      track_transactions_def real_time_update_def real_time_update_apply_def
      split: option.splits)

lemma perform_wf: "wf_wallet s \<Longrightarrow> wf_wallet (snd (perform s c))"
  by (simp add: wf_wallet_def perform_distinct perform_nonneg perform_timestamps)

lemma run_wf: "wf_wallet s \<Longrightarrow> wf_wallet (run s cs)"
  unfolding run_def by (induction cs arbitrary: s) (simp_all add: perform_wf)

lemma reachable_wf: "wf_wallet (run init_wallet cs)"
  by (rule run_wf) (simp add: wf_wallet_def init_wallet_def keys_def balances_nonneg_def dict_values_def)

lemma has_timestamp_iff:
  "has_timestamp t \<longleftrightarrow> (\<exists>r. map_of t ''timestamp'' = Some (VFloat (Fin r)))"
proof (cases "map_of t ''timestamp''")
  case None
  then show ?thesis by (simp add: has_timestamp_def)
next
  case (Some v)
  show ?thesis
  proof (cases v)
    case (VFloat a)
    with Some show ?thesis by (cases a) (simp_all add: has_timestamp_def)
  qed (simp_all add: has_timestamp_def Some)
qed

lemma reachable_timestamps:
  "t \<in> set (transactions (run init_wallet cs)) \<Longrightarrow>
   \<exists>r. map_of t ''timestamp'' = Some (VFloat (Fin r))"
  using reachable_wf [of cs]
  by (simp add: wf_wallet_def list_all_iff has_timestamp_iff)

subsection \<open>Every reachable state passes \<open>verify_invariants\<close>\<close>

lemma verify_invariants_iff:
  "verify_invariants s \<longleftrightarrow> distinct (keys (balances s)) \<and> balances_nonneg s \<and> refs_ok s"
proof -
  have "length (balances s) = length (remdups (keys (balances s))) \<longleftrightarrow> distinct (keys (balances s))"
    by (metis keys_def length_map length_remdups_eq remdups_id_iff_distinct)
  then show ?thesis
    by (auto simp: verify_invariants_def balances_nonneg_def refs_ok_def nonneg_def [abs_def])
qed

lemma set_keys_dict_set: "set (keys (dict_set d k v)) = insert k (set (keys d))"
  by (auto simp: keys_dict_set)

lemma refs_okI:
  assumes "refs_ok s"
    and "\<And>u. dict_has (balances s) u \<Longrightarrow> dict_has (balances s') u"
    and "set (keys (user_pins s')) \<subseteq> set (keys (user_pins s)) \<union> {u. dict_has (balances s') u}"
    and "set (keys (payment_methods s')) \<subseteq> set (keys (payment_methods s)) \<union> {u. dict_has (balances s') u}"
    and "set (keys (spending_limits s')) \<subseteq> set (keys (spending_limits s)) \<union> {u. dict_has (balances s') u}"
  shows "refs_ok s'"
  using assms unfolding refs_ok_def list_all_iff by blast

lemma interest_loop_others:
  "user_pins (interest_loop rate env i ks s) = user_pins s
   \<and> payment_methods (interest_loop rate env i ks s) = payment_methods s
   \<and> spending_limits (interest_loop rate env i ks s) = spending_limits s"
  by (induction ks arbitrary: i s) (simp_all add: Let_def)

lemma perform_refs_ok: "refs_ok s \<Longrightarrow> refs_ok (snd (perform s c))"
proof (cases c)
  case (CreateAccount user_id email password)
  assume "refs_ok s"
  then have "refs_ok (create_account_apply s user_id)"
    by (rule refs_okI) (simp_all add: create_account_apply_def dict_has_dict_set)
  with \<open>refs_ok s\<close> CreateAccount show ?thesis
    by (simp add: create_account_def Let_def snd_guarded)
next
  case (SetPin user_id pin)
  assume r: "refs_ok s"
  have "refs_ok (set_pin_apply s user_id pin)" if "set_pin_pre s user_id pin = None"
  proof -
    from that have "dict_has (balances s) user_id"
      by (simp add: set_pin_pre_def split: if_splits)
    then show ?thesis
      by (intro refs_okI [OF r]) (auto simp: set_pin_apply_def set_keys_dict_set)
  qed
  with r SetPin show ?thesis
    by (simp add: set_pin_def Let_def snd_guarded)
next
  case (AddFunds user_id amount tx_id now)
  assume "refs_ok s"
  then have "refs_ok (add_funds_apply s user_id amount tx_id now)"
    by (rule refs_okI) (simp_all add: add_funds_apply_def dict_has_dict_set)
  with \<open>refs_ok s\<close> AddFunds show ?thesis
    by (simp add: add_funds_def Let_def snd_guarded)
next
  case (WithdrawFunds user_id bank_account amount tx_id now)
  assume "refs_ok s"
  then have "refs_ok (withdraw_funds_apply s user_id bank_account amount tx_id now)"
    by (rule refs_okI) (simp_all add: withdraw_funds_apply_def dict_has_dict_set)
  with \<open>refs_ok s\<close> WithdrawFunds show ?thesis
    by (simp add: withdraw_funds_def Let_def snd_guarded)
next
  case (Transfer sender receiver amount tx_id now)
  assume "refs_ok s"
  then have "refs_ok (transfer_apply s sender receiver amount tx_id now)"
    by (rule refs_okI) (simp_all add: transfer_apply_def Let_def dict_has_dict_set)
  with \<open>refs_ok s\<close> Transfer show ?thesis
    by (simp add: transfer_def Let_def snd_guarded)
next
  case (ApplyInterest rate env)
  assume "refs_ok s"
  then have "refs_ok (apply_interest_apply s rate env)"
    by (rule refs_okI)
       (simp_all add: apply_interest_apply_def interest_loop_others dict_has_keys
          interest_loop_keys)
  with \<open>refs_ok s\<close> ApplyInterest show ?thesis
    by (simp add: apply_interest_def Let_def snd_guarded)
next
  case (SetSpendingLimits user_id daily monthly)
  assume r: "refs_ok s"
  have "refs_ok (set_spending_limits_apply s user_id daily monthly)"
    if "set_spending_limits_pre s user_id daily monthly = None"
  proof -
    from that have "dict_has (balances s) user_id"
      by (simp add: set_spending_limits_pre_def split: if_splits)
    then show ?thesis
      by (intro refs_okI [OF r]) (auto simp: set_spending_limits_apply_def set_keys_dict_set)
  qed
  with r SetSpendingLimits show ?thesis
    by (simp add: set_spending_limits_def Let_def snd_guarded)
next
  case (AddPaymentMethod user_id pm)
  assume r: "refs_ok s"
  have "refs_ok (add_payment_method_apply s user_id pm)"
    if "add_payment_method_pre s user_id pm = None"
  proof -
    from that have "dict_has (balances s) user_id"
      by (simp add: add_payment_method_pre_def split: if_splits)
    then show ?thesis
      by (intro refs_okI [OF r])
         (auto simp: add_payment_method_apply_def Let_def set_keys_dict_set)
  qed
  with r AddPaymentMethod show ?thesis
    by (simp add: add_payment_method_def Let_def snd_guarded)
next
  case (RealTimeUpdate user_id amount tx_id now)
  assume "refs_ok s"
  then have "refs_ok (real_time_update_apply s user_id amount tx_id now)"
    by (rule refs_okI) (simp_all add: real_time_update_apply_def Let_def dict_has_dict_set)
  with \<open>refs_ok s\<close> RealTimeUpdate show ?thesis
    by (simp add: real_time_update_def Let_def snd_guarded)
qed (simp_all add: authenticate_pin_def get_payment_methods_def track_transactions_def Let_def
      split: option.splits)

lemma run_refs_ok: "refs_ok s \<Longrightarrow> refs_ok (run s cs)"
  unfolding run_def by (induction cs arbitrary: s) (simp_all add: perform_refs_ok)

lemma reachable_invariants: "verify_invariants (run init_wallet cs)"
proof -
  have "refs_ok init_wallet"
    by (simp add: refs_ok_def init_wallet_def keys_def)
  then have "refs_ok (run init_wallet cs)" by (rule run_refs_ok)
  with reachable_wf [of cs] show ?thesis
    by (simp add: verify_invariants_iff wf_wallet_def)
qed


subsection \<open>Filtering, sorting and paging\<close>

lemma nonneg_feq_self: "nonneg b \<Longrightarrow> feq b b"
  by (cases b) simp_all

lemma balances_kept_self:
  assumes "distinct (keys (balances s))" "balances_nonneg s"
  shows "balances_kept skip (balances s) s"
proof -
  have "feq (bal s u) b" if "(u, b) \<in> set (balances s)" for u b
  proof -
    from assms(1) that have "map_of (balances s) u = Some b"
      by (simp add: keys_def)
    moreover from assms(2) that have "nonneg b"
      by (force simp: balances_nonneg_def dict_values_def list_all_iff)
    ultimately show ?thesis by (simp add: bal_def dict_at_def nonneg_feq_self)
  qed
  then show ?thesis by (auto simp: balances_kept_def list_all_iff)
qed

lemma set_filter_fold:
  "set (foldl (\<lambda>txs (k, v). filter (\<lambda>t. py_eq (dict_get t k) v) txs) txs fs) \<subseteq> set txs"
proof (induction fs arbitrary: txs)
  case Nil
  show ?case by simp
next
  case (Cons kv fs)
  obtain k v where kv: "kv = (k, v)" by (cases kv)
  have "set (foldl (\<lambda>txs (k, v). filter (\<lambda>t. py_eq (dict_get t k) v) txs)
               (filter (\<lambda>t. py_eq (dict_get t k) v) txs) fs)
          \<subseteq> set (filter (\<lambda>t. py_eq (dict_get t k) v) txs)"
    by (rule Cons.IH)
  also have "\<dots> \<subseteq> set txs" by simp
  finally show ?case by (simp add: kv)
qed

lemma set_sort_desc: "set (sort_desc f xs) = set xs"
  by (simp add: sort_desc_def)

lemma sorted_sort_desc: "sorted_wrt (\<lambda>a b. f b \<le> f a) (sort_desc f xs)"
proof -
  have "sorted (map f (sort_key f (rev xs)))" by (rule sorted_sort_key)
  then have "sorted_wrt (\<lambda>a b. f a \<le> f b) (sort_key f (rev xs))"
    by (simp add: sorted_wrt_map)
  then show ?thesis by (simp add: sort_desc_def sorted_wrt_rev)
qed

lemma set_slice: "set (slice a b xs) \<subseteq> set xs"
  unfolding slice_def by (rule subset_trans [OF set_take_subset set_drop_subset])

lemma length_slice: "length (slice a b xs) \<le> nat (b - a)"
  by (simp add: slice_def)

lemma sorted_wrt_slice: "sorted_wrt R xs \<Longrightarrow> sorted_wrt R (slice a b xs)"
  by (simp add: slice_def)

lemma nonincreasing_sorted: "sorted_wrt (\<lambda>a b. b \<le> a) xs \<Longrightarrow> nonincreasing xs"
  by (induction xs rule: nonincreasing.induct) simp_all

lemma track_result_subset:
  "set (track_transactions_result s user_id filters page page_size)
     \<subseteq> {t \<in> set (transactions s). involves user_id t}"
proof -
  define txs0 where "txs0 = filter (involves user_id) (transactions s)"
  define txs1 where "txs1 = (case filters of
                   None \<Rightarrow> txs0
                 | Some fs \<Rightarrow> foldl (\<lambda>txs (k, v). filter (\<lambda>t. py_eq (dict_get t k) v) txs) txs0 fs)"
  have 1: "set txs1 \<subseteq> set txs0"
    by (cases filters) (simp_all add: txs1_def set_filter_fold)
  have "track_transactions_result s user_id filters page page_size
          = slice ((page - 1) * page_size) ((page - 1) * page_size + page_size)
              (sort_desc timestamp_key txs1)"
    unfolding track_transactions_result_def Let_def txs0_def txs1_def by (rule refl)
  then have "set (track_transactions_result s user_id filters page page_size)
          \<subseteq> set (sort_desc timestamp_key txs1)"
    by (simp add: set_slice)
  also have "\<dots> = set txs1" by (rule set_sort_desc)
  also note 1
  also have "set txs0 = {t \<in> set (transactions s). involves user_id t}"
    by (simp add: txs0_def)
  finally show ?thesis .
qed

lemma track_result_length:
  assumes "0 \<le> page_size"
  shows "int (length (track_transactions_result s user_id filters page page_size)) \<le> page_size"
proof -
  let ?start = "(page - 1) * page_size"
  have "length (track_transactions_result s user_id filters page page_size)
          \<le> nat (?start + page_size - ?start)"
    unfolding track_transactions_result_def Let_def by (rule length_slice)
  also have "\<dots> = nat page_size" by simp
  finally show ?thesis using assms by simp
qed

lemma track_result_sorted:
  "sorted_wrt (\<lambda>a b. timestamp_key b \<le> timestamp_key a)
     (track_transactions_result s user_id filters page page_size)"
  unfolding track_transactions_result_def Let_def
  by (intro sorted_wrt_slice sorted_sort_desc)

lemma py_eq_VStr: "py_eq x (VStr u) \<longleftrightarrow> x = VStr u"
  by (cases x) simp_all

lemma timestamp_order:
  assumes "has_timestamp a" "has_timestamp b"
  shows "fge (num_of (dict_get a ''timestamp'')) (num_of (dict_get b ''timestamp''))
         \<longleftrightarrow> timestamp_key b \<le> timestamp_key a"
proof -
  from assms obtain ra rb where
    "map_of a ''timestamp'' = Some (VFloat (Fin ra))" "map_of b ''timestamp'' = Some (VFloat (Fin rb))"
    by (auto simp: has_timestamp_iff)
  then show ?thesis
    by (auto simp: dict_get_def timestamp_key_def fge_def fle_def)
qed

subsection \<open>The effect of a transfer\<close>






subsection \<open>The effect of the interest loop\<close>






subsection \<open>Accepted calls\<close>






section \<open>The claims\<close>

text \<open>
  C2. After every finite sequence of public calls on a freshly constructed wallet, each
  call returning or raising, every balance is \<open>\<ge> 0\<close> (invariant I2 holds in every
  reachable state). \<open>run\<close> keeps the state a call leaves behind whether it returned
  or raised, so every prefix of the sequence is covered.
\<close>

theorem balances_never_negative:
  "list_all (\<lambda>b. fge b (Fin 0)) (dict_values (balances (run init_wallet cs)))"
  using run_nonneg [of init_wallet cs]
  by (simp add: balances_nonneg_def init_wallet_def dict_values_def nonneg_def [abs_def])

theorem balances_never_negative_witness:
  "balances (run init_wallet [CreateAccount ''alice'' ''alice@example.com'' ''password123''])
     = [(''alice'', Fin 0)]
   \<and> list_all (\<lambda>b. fge b (Fin 0)) (dict_values (balances
        (run init_wallet [CreateAccount ''alice'' ''alice@example.com'' ''password123''])))"
  using balances_never_negative [of "[CreateAccount ''alice'' ''alice@example.com'' ''password123'']"]
  by (simp add: run_def create_account_def Let_def snd_guarded create_account_pre_def
      create_account_apply_def init_wallet_def dict_has_def)

subsection \<open>Rejected calls\<close>





subsection \<open>The transaction log\<close>

lemma interest_loop_transactions:
  "\<exists>new. transactions (interest_loop rate env i ks s) = transactions s @ new
         \<and> length new = length ks \<and> list_all completed new"
proof (induction ks arbitrary: i s)
  case Nil
  then show ?case by simp
next
  case (Cons k ks)
  let ?s1 = "s\<lparr>balances := dict_set (balances s) k (fadd (bal s k) (fmul (bal s k) rate)),
              transactions := transactions s @
                [[(''id'', VStr (fst (env i))), (''type'', VStr ''interest''),
                  (''user_id'', VStr k), (''amount'', VFloat (fmul (bal s k) rate)),
                  (''timestamp'', VFloat (Fin (snd (env i)))),
                  (''status'', VStr ''completed'')]]\<rparr>"
  from Cons.IH [of "Suc i" ?s1]
  obtain new where new: "transactions (interest_loop rate env (Suc i) ks ?s1) = transactions ?s1 @ new"
    "length new = length ks" "list_all completed new"
    by blast
  let ?tx = "[(''id'', VStr (fst (env i))), (''type'', VStr ''interest''),
                  (''user_id'', VStr k), (''amount'', VFloat (fmul (bal s k) rate)),
                  (''timestamp'', VFloat (Fin (snd (env i)))),
                  (''status'', VStr ''completed'')]"
  have "transactions (interest_loop rate env i (k # ks) s) = transactions s @ (?tx # new)"
    using new(1) by (simp add: Let_def)
  moreover have "length (?tx # new) = length (k # ks)" using new(2) by simp
  moreover have "list_all completed (?tx # new)"
    using new(3) by (simp add: completed_def dict_get_def)
  ultimately show ?case by blast
qed

lemma call_appends:
  "\<exists>new. transactions (snd (perform s c)) = transactions s @ new \<and> list_all completed new"
proof (cases c)
  case (ApplyInterest rate env)
  then show ?thesis
    using interest_loop_transactions [of rate env 0 "keys (balances s)" s]
    by (auto simp: apply_interest_def Let_def snd_guarded apply_interest_apply_def)
qed (auto simp: Let_def snd_guarded completed_def dict_get_def
      create_account_def create_account_apply_def set_pin_def set_pin_apply_def
      authenticate_pin_def add_funds_def add_funds_apply_def
      withdraw_funds_def withdraw_funds_apply_def transfer_def transfer_apply_def
      set_spending_limits_def set_spending_limits_apply_def
      add_payment_method_def add_payment_method_apply_def get_payment_methods_def
      track_transactions_def real_time_update_def real_time_update_apply_def
      split: option.splits)


text \<open>
  C8. The transaction log is append-only: for every public call and every state, the log
  after the call is the log before it followed by zero or more new records, and every
  new record has status \<open>completed\<close>.
\<close>

theorem log_append_only:
  "\<exists>new. transactions (snd (perform s c)) = transactions s @ new
         \<and> (\<forall>t \<in> set new. dict_get t ''status'' = VStr ''completed'')"
  using call_appends [of s c] by (auto simp: list_all_iff completed_def)

theorem log_append_only_witness:
  "\<exists>new. transactions (snd (perform demo_wallet (AddFunds ''bob'' (Fin 5) ''tx2'' 2)))
            = transactions demo_wallet @ new
         \<and> (\<forall>t \<in> set new. dict_get t ''status'' = VStr ''completed'')"
  using log_append_only [of demo_wallet "AddFunds ''bob'' (Fin 5) ''tx2'' 2"] .

subsection \<open>Read-only operations and account creation\<close>

text \<open>
  C10. For an existing account with no PIN record, \<open>authenticate_pin\<close> returns
  \<open>False\<close> for every string, without raising and without changing the state.
\<close>

theorem authenticate_pin_without_pin:
  "dict_has (balances s) u \<Longrightarrow> \<not> dict_has (user_pins s) u \<Longrightarrow>
   authenticate_pin s u pin = (Returned False, s)"
  by (simp add: authenticate_pin_def dict_has_def)

theorem authenticate_pin_without_pin_witness:
  "dict_has (balances demo_wallet) ''alice'' \<and> \<not> dict_has (user_pins demo_wallet) ''alice'' \<and>
   authenticate_pin demo_wallet ''alice'' ''1234'' = (Returned False, demo_wallet)"
proof -
  have h1: "dict_has (balances demo_wallet) ''alice''"
    by (simp add: demo_wallet_def dict_has_def)
  have h2: "\<not> dict_has (user_pins demo_wallet) ''alice''"
    by (simp add: demo_wallet_def dict_has_def)
  show ?thesis using h1 h2 authenticate_pin_without_pin [OF h1 h2, of "''1234''"] by simp
qed

text \<open>
  C7. The read-only operations \<open>authenticate_pin\<close>, \<open>get_payment_methods\<close> and
  \<open>track_transactions\<close> leave every component of the wallet state unchanged, whatever
  their arguments.
\<close>

theorem reads_keep_state:
  "snd (authenticate_pin s user_id pin) = s
   \<and> snd (get_payment_methods s user_id) = s
   \<and> snd (track_transactions s user_id filters page page_size) = s"
  by (simp add: authenticate_pin_def get_payment_methods_def track_transactions_def Let_def
      split: option.splits)

theorem reads_keep_state_witness:
  "snd (authenticate_pin demo_wallet ''bob'' ''1234'') = demo_wallet
   \<and> snd (get_payment_methods demo_wallet ''bob'') = demo_wallet
   \<and> snd (track_transactions demo_wallet ''bob'' None 1 25) = demo_wallet"
  using reads_keep_state [of demo_wallet "''bob''" "''1234''" None 1 25] .

text \<open>
  C9. The password given to \<open>create_account\<close> only decides whether the call is
  accepted: two valid passwords (non-empty, at least 6 characters) give the same outcome
  and the same wallet state, so no component of the state holds the password.
\<close>

theorem create_account_ignores_password:
  "p1 \<noteq> [] \<Longrightarrow> 6 \<le> length p1 \<Longrightarrow> p2 \<noteq> [] \<Longrightarrow> 6 \<le> length p2 \<Longrightarrow>
   create_account s user_id email p1 = create_account s user_id email p2"
  by (simp add: create_account_def create_account_pre_def)

theorem create_account_ignores_password_witness:
  "''password123'' \<noteq> [] \<and> 6 \<le> length ''password123''
   \<and> ''hunter2hunter2'' \<noteq> [] \<and> 6 \<le> length ''hunter2hunter2''
   \<and> create_account demo_wallet ''carol'' ''carol@example.com'' ''password123''
       = create_account demo_wallet ''carol'' ''carol@example.com'' ''hunter2hunter2''"
proof -
  have h1: "''password123'' \<noteq> []" by simp
  have h2: "6 \<le> length ''password123''" by simp
  have h3: "''hunter2hunter2'' \<noteq> []" by simp
  have h4: "6 \<le> length ''hunter2hunter2''" by simp
  from create_account_ignores_password [OF h1 h2 h3 h4, of demo_wallet "''carol''" "''carol@example.com''"]
  show ?thesis by simp
qed

subsection \<open>Transaction history\<close>

text \<open>
  C6. In every reachable state, for an existing account, a page number \<open>\<ge> 1\<close>, a page
  size between 1 and 100 and any (optional) dictionary of equality filters,
  \<open>track_transactions\<close> returns at most \<open>page_size\<close> records, each of which has the
  user as \<open>user_id\<close>, \<open>from\<close> or \<open>to\<close>, in non-increasing order of timestamp.
\<close>

theorem track_transactions_page:
  assumes "dict_has (balances (run init_wallet cs)) user_id"
    and "1 \<le> page" and "1 \<le> page_size" and "page_size \<le> 100"
  shows "\<exists>result.
           track_transactions (run init_wallet cs) user_id filters page page_size
             = (Returned result, run init_wallet cs)
           \<and> int (length result) \<le> page_size
           \<and> (\<forall>t \<in> set result. dict_get t ''user_id'' = VStr user_id
                                \<or> dict_get t ''from'' = VStr user_id
                                \<or> dict_get t ''to'' = VStr user_id)
           \<and> sorted_wrt (\<lambda>a b. fge (num_of (dict_get a ''timestamp''))
                                    (num_of (dict_get b ''timestamp''))) result"
proof -
  let ?s = "run init_wallet cs"
  let ?r = "track_transactions_result ?s user_id filters page page_size"
  have wf: "wf_wallet ?s" by (rule reachable_wf)
  have len: "int (length ?r) \<le> page_size"
    using assms(3) by (intro track_result_length) simp
  have sub: "set ?r \<subseteq> {t \<in> set (transactions ?s). involves user_id t}"
    by (rule track_result_subset)
  then have inv: "list_all (involves user_id) ?r"
    by (auto simp: list_all_iff)
  have srt: "sorted_wrt (\<lambda>a b. timestamp_key b \<le> timestamp_key a) ?r"
    by (rule track_result_sorted)
  then have noninc: "nonincreasing (map timestamp_key ?r)"
    by (intro nonincreasing_sorted) (simp add: sorted_wrt_map)
  have kept: "balances_kept [] (balances ?s) ?s"
    using wf by (simp add: wf_wallet_def balances_kept_self)
  have pre: "track_transactions_pre ?s user_id page page_size = None"
    using assms by (simp add: track_transactions_pre_def)
  have post: "track_transactions_post ?s user_id page_size ?r = None"
    using len inv noninc kept by (simp add: track_transactions_post_def)
  have call: "track_transactions ?s user_id filters page page_size = (Returned ?r, ?s)"
    using pre post by (simp add: track_transactions_def)
  have ts: "has_timestamp t" if "t \<in> set ?r" for t
    using wf sub that by (auto simp: wf_wallet_def list_all_iff)
  have "sorted_wrt (\<lambda>a b. fge (num_of (dict_get a ''timestamp''))
                            (num_of (dict_get b ''timestamp''))) ?r"
    using srt by (rule sorted_wrt_mono_rel [rotated]) (simp add: timestamp_order ts)
  moreover have "\<forall>t \<in> set ?r. dict_get t ''user_id'' = VStr user_id
                                \<or> dict_get t ''from'' = VStr user_id
                                \<or> dict_get t ''to'' = VStr user_id"
    using sub by (auto simp: involves_def py_eq_VStr)
  ultimately show ?thesis using call len by blast
qed


lemma rnd_1000: "rnd 1000 = Fin 1000"
proof (rule rnd_eqI [where e = 9 and q = "- 43" and m = 8796093022208000])
  show "round_half_even (1000 / pow2 (- 43)) = 8796093022208000"
    by (rule round_half_even_near) simp
qed simp_all

lemma run_demo_calls: "run init_wallet demo_calls = demo_wallet"
  by (simp add: demo_calls_def demo_wallet_def demo_deposit_def run_def Let_def snd_guarded
      init_wallet_def dict_has_def bal_def dict_at_def isdigit_def
      create_account_def create_account_pre_def create_account_apply_def
      set_pin_def set_pin_pre_def set_pin_apply_def
      add_funds_def add_funds_pre_def add_funds_apply_def fgt_def fle_def rnd_1000)

theorem track_transactions_page_witness:
  "dict_has (balances (run init_wallet demo_calls)) ''alice'' \<and> (1::int) \<le> 1 \<and> (1::int) \<le> 25
   \<and> (25::int) \<le> 100
   \<and> (\<exists>result.
           track_transactions (run init_wallet demo_calls) ''alice'' (Some [(''type'', VStr ''deposit'')]) 1 25
             = (Returned result, run init_wallet demo_calls)
           \<and> int (length result) \<le> 25
           \<and> (\<forall>t \<in> set result. dict_get t ''user_id'' = VStr ''alice''
                                \<or> dict_get t ''from'' = VStr ''alice''
                                \<or> dict_get t ''to'' = VStr ''alice'')
           \<and> sorted_wrt (\<lambda>a b. fge (num_of (dict_get a ''timestamp''))
                                    (num_of (dict_get b ''timestamp''))) result)"
proof -
  have h1: "dict_has (balances (run init_wallet demo_calls)) ''alice''"
    by (simp add: run_demo_calls demo_wallet_def dict_has_def)
  have h2: "(1::int) \<le> 1" by simp
  have h3: "(1::int) \<le> 25" by simp
  have h4: "(25::int) \<le> 100" by simp
  from track_transactions_page [OF h1 h2 h3 h4, of "Some [(''type'', VStr ''deposit'')]"] h1
  show ?thesis by simp
qed

subsection \<open>Deposit followed by withdrawal\<close>

lemma c5_reach: "run init_wallet
    [CreateAccount ''alice'' ''alice@example.com'' ''password123'',
     AddFunds ''alice'' (Fin f_0_1) ''tx1'' 1] = c5_wallet0"
  apply (simp add: run_def Let_def snd_guarded init_wallet_def c5_wallet0_def c5_deposit0_def
      create_account_def create_account_pre_def create_account_apply_def
      add_funds_def add_funds_pre_def add_funds_apply_def dict_ops float_ops rnd_0_1)
  apply (simp add: float_consts)
  done















subsection \<open>Transfer\<close>

lemma c1_reach: "run init_wallet
    [CreateAccount ''alice'' ''alice@example.com'' ''password123'',
     CreateAccount ''bob'' ''bob@example.com'' ''password456'',
     AddFunds ''alice'' (Fin f_0_1) ''tx1'' 1,
     AddFunds ''bob'' (Fin f_0_2) ''tx2'' 2] = c1_wallet0"
  apply (simp add: run_def Let_def snd_guarded init_wallet_def c1_wallet0_def
      c1_deposit_alice_def c1_deposit_bob_def
      create_account_def create_account_pre_def create_account_apply_def
      add_funds_def add_funds_pre_def add_funds_apply_def dict_ops float_ops rnd_0_1 rnd_0_2)
  apply (simp add: float_consts)
  done







text \<open>
  With large balances the rounding is no longer below the tolerance of the method's own
  check: the transfer is applied and the call then raises.
\<close>

lemma big_pre: "transfer_pre big_wallet0 ''alice'' ''bob'' (Fin 1) = None"
  by (simp add: transfer_pre_def big_wallet0_def dict_ops float_ops rnd_int_2)

lemma big_apply: "transfer_apply big_wallet0 ''alice'' ''bob'' (Fin 1) ''tx1'' 1 = big_wallet1"
  by (simp add: transfer_apply_def Let_def big_wallet0_def big_wallet1_def transfer_record_def
      dict_ops float_ops rnd_int_2 rnd_int_9007199254740993)

lemma big_post: "transfer_post big_wallet0 big_wallet1 ''alice'' ''bob'' (Fin 1)
    = Some ''E4 violated: Total balance changed''"
  by (simp add: transfer_post_def Let_def big_wallet0_def big_wallet1_def transfer_record_def
      verify_invariants_def dict_ops float_ops rnd_int_2 rnd_int_9007199254740993
      rnd_int_9007199254740994 rnd_int_9007199254740995 rnd_int_9007199254740992)

lemma transfer_can_raise_after_update:
  "transfer big_wallet0 ''alice'' ''bob'' (Fin 1) ''tx1'' 1
     = (Raised ''E4 violated: Total balance changed'', big_wallet1)"
  by (simp add: transfer_def Let_def guarded_def big_pre big_apply big_post)





subsection \<open>Interest\<close>









end
